theory Spec2Isabelle
  imports Complex_Main
begin

section \<open>Python values shared by the modules\<close>

text \<open>
  A Python number is modelled by its exact value: a finite value (an \<open>int\<close> or a finite
  \<open>float\<close>, which Python compares exactly), the two infinities that the prior constructors
  use as default bounds, and NaN. Every ordering comparison with NaN is false and NaN is
  equal to nothing, as in Python.
\<close>

datatype pyfloat = NaN | NegInf | Fin real | PosInf

fun py_le :: "pyfloat \<Rightarrow> pyfloat \<Rightarrow> bool" where
  "py_le NaN y = False"
| "py_le x NaN = False"
| "py_le NegInf y = True"
| "py_le (Fin a) NegInf = False"
| "py_le (Fin a) (Fin b) = (a \<le> b)"
| "py_le (Fin a) PosInf = True"
| "py_le PosInf NegInf = False"
| "py_le PosInf (Fin b) = False"
| "py_le PosInf PosInf = True"

fun py_lt :: "pyfloat \<Rightarrow> pyfloat \<Rightarrow> bool" where
  "py_lt NaN y = False"
| "py_lt x NaN = False"
| "py_lt NegInf NegInf = False"
| "py_lt NegInf y = True"
| "py_lt (Fin a) NegInf = False"
| "py_lt (Fin a) (Fin b) = (a < b)"
| "py_lt (Fin a) PosInf = True"
| "py_lt PosInf y = False"

fun py_eq :: "pyfloat \<Rightarrow> pyfloat \<Rightarrow> bool" where
  "py_eq NaN y = False"
| "py_eq x NaN = False"
| "py_eq x y = (x = y)"

definition py_gt :: "pyfloat \<Rightarrow> pyfloat \<Rightarrow> bool" where
  "py_gt x y = py_lt y x"

text \<open>The exceptions the modelled code raises, each with its message.\<close>

datatype error =
    ValueError string
  | TypeError string
  | RuntimeError string
  | AssertionError string
  | AttributeError string
  | IndexError string
  | OverflowError string
  | DismodATException string
  | RangeError string
  | ShapeError string

section \<open>cascade/model/priors.py\<close>

datatype density =
  uniform | gaussian | laplace | students | log_gaussian | log_laplace | log_students

text \<open>
  One constructor per concrete class, holding the attributes its \<open>__init__\<close> assigns.
  \<open>name\<close> is the optional name (\<open>None\<close> by default).
\<close>

datatype prior =
    UniformObj (name: "string option") (lower: pyfloat) (upper: pyfloat) (mean: pyfloat)
  | GaussianObj (name: "string option") (lower: pyfloat) (upper: pyfloat) (mean: pyfloat)
      (standard_deviation: pyfloat)
  | LaplaceObj (name: "string option") (lower: pyfloat) (upper: pyfloat) (mean: pyfloat)
      (standard_deviation: pyfloat)
  | StudentsTObj (name: "string option") (lower: pyfloat) (upper: pyfloat) (mean: pyfloat)
      (standard_deviation: pyfloat) (nu: pyfloat)
  | LogGaussianObj (name: "string option") (lower: pyfloat) (upper: pyfloat) (mean: pyfloat)
      (standard_deviation: pyfloat) (eta: pyfloat)
  | LogLaplaceObj (name: "string option") (lower: pyfloat) (upper: pyfloat) (mean: pyfloat)
      (standard_deviation: pyfloat) (eta: pyfloat)
  | LogStudentsTObj (name: "string option") (lower: pyfloat) (upper: pyfloat) (mean: pyfloat)
      (standard_deviation: pyfloat) (nu: pyfloat) (eta: pyfloat)

text \<open>The class attribute \<open>density\<close>.\<close>

fun density_of :: "prior \<Rightarrow> density" where
  "density_of (UniformObj n l u m) = uniform"
| "density_of (GaussianObj n l u m s) = gaussian"
| "density_of (LaplaceObj n l u m s) = laplace"
| "density_of (StudentsTObj n l u m s v) = students"
| "density_of (LogGaussianObj n l u m s e) = log_gaussian"
| "density_of (LogLaplaceObj n l u m s e) = log_laplace"
| "density_of (LogStudentsTObj n l u m s v e) = log_students"

text \<open>
  \<open>parameters()\<close>: every concrete class overrides \<open>parameters\<close> itself (not
  \<open>_parameters\<close>), so the dictionary is the one written in the subclass and the
  \<open>density\<close> entry of \<open>_Prior.parameters\<close> is never added. The dictionary is an
  association list in insertion order.
\<close>

fun parameters :: "prior \<Rightarrow> (string \<times> pyfloat) list" where
  "parameters (UniformObj n l u m) = [(''lower'', l), (''upper'', u), (''mean'', m)]"
| "parameters (GaussianObj n l u m s) =
     [(''lower'', l), (''upper'', u), (''mean'', m), (''std'', s)]"
| "parameters (LaplaceObj n l u m s) =
     [(''lower'', l), (''upper'', u), (''mean'', m), (''std'', s)]"
| "parameters (StudentsTObj n l u m s v) =
     [(''lower'', l), (''upper'', u), (''mean'', m), (''std'', s), (''nu'', v)]"
| "parameters (LogGaussianObj n l u m s e) =
     [(''lower'', l), (''upper'', u), (''mean'', m), (''std'', s), (''eta'', e)]"
| "parameters (LogLaplaceObj n l u m s e) =
     [(''lower'', l), (''upper'', u), (''mean'', m), (''std'', s), (''eta'', e)]"
| "parameters (LogStudentsTObj n l u m s v e) =
     [(''lower'', l), (''upper'', u), (''mean'', m), (''std'', s), (''nu'', v), (''eta'', e)]"

text \<open>
  Python's \<open>==\<close> on two dictionaries: the same number of entries, and every key of the
  first is a key of the second with an equal value. (CPython also accepts two values that
  are the same object; object identity is not part of this model, so a NaN value is equal
  to nothing.)
\<close>

definition dict_eq :: "(string \<times> pyfloat) list \<Rightarrow> (string \<times> pyfloat) list \<Rightarrow> bool" where
  "dict_eq a b =
     (length a = length b \<and>
      list_all (\<lambda>(k, v). case map_of b k of None \<Rightarrow> False | Some w \<Rightarrow> py_eq v w) a)"

text \<open>
  \<open>__eq__\<close>: \<open>isinstance(other, _Prior)\<close> holds for every \<open>prior\<close>; the names are
  compared, then the parameter dictionaries.
\<close>

definition prior_eq :: "prior \<Rightarrow> prior \<Rightarrow> bool" where
  "prior_eq self other = (name self = name other \<and> dict_eq (parameters self) (parameters other))"

text \<open>
  \<open>__hash__\<close> is \<open>hash(frozenset(self.parameters().items()))\<close>. Python's \<open>hash\<close> on a
  frozenset is a function of the set of items; it is the parameter \<open>H\<close>.
\<close>

definition prior_hash :: "((string \<times> pyfloat) set \<Rightarrow> int) \<Rightarrow> prior \<Rightarrow> int" where
  "prior_hash H self = H (set (parameters self))"

definition validate_bounds :: "pyfloat \<Rightarrow> pyfloat \<Rightarrow> pyfloat \<Rightarrow> error + unit" where
  "validate_bounds lo m up =
     (if \<not> (py_le lo m \<and> py_le m up) then Inl (ValueError ''Bounds are inconsistent'')
      else Inr ())"

definition validate_standard_deviation :: "pyfloat \<Rightarrow> error + unit" where
  "validate_standard_deviation sd =
     (if py_lt sd (Fin 0) then Inl (ValueError ''Standard deviation must be positive'')
      else Inr ())"

definition validate_nu :: "pyfloat \<Rightarrow> error + unit" where
  "validate_nu v = (if py_lt v (Fin 0) then Inl (ValueError ''Nu must be positive'') else Inr ())"

text \<open>Sequencing of statements that may raise: the first exception ends the block.\<close>

fun and_then :: "error + unit \<Rightarrow> error + 'a \<Rightarrow> error + 'a" where
  "and_then (Inl e) r = Inl e"
| "and_then (Inr u) r = r"

text \<open>
  The constructors \<open>__init__\<close>, with the arguments in the order of the source. The
  defaults of the source are \<open>lower = NegInf\<close>, \<open>upper = PosInf\<close>, \<open>name = None\<close>.
  \<open>LaplacePrior\<close> and \<open>LogLaplacePrior\<close> inherit \<open>__init__\<close> from \<open>GaussianPrior\<close> and
  \<open>LogGaussianPrior\<close>.
\<close>

definition UniformPrior ::
  "pyfloat \<Rightarrow> pyfloat \<Rightarrow> pyfloat \<Rightarrow> string option \<Rightarrow> error + prior" where
  "UniformPrior m lo up n =
     and_then (validate_bounds lo m up) (Inr (UniformObj n lo up m))"

definition GaussianPrior ::
  "pyfloat \<Rightarrow> pyfloat \<Rightarrow> pyfloat \<Rightarrow> pyfloat \<Rightarrow> string option \<Rightarrow> error + prior" where
  "GaussianPrior m sd lo up n =
     and_then (validate_bounds lo m up)
       (and_then (validate_standard_deviation sd) (Inr (GaussianObj n lo up m sd)))"

definition LaplacePrior ::
  "pyfloat \<Rightarrow> pyfloat \<Rightarrow> pyfloat \<Rightarrow> pyfloat \<Rightarrow> string option \<Rightarrow> error + prior" where
  "LaplacePrior m sd lo up n =
     and_then (validate_bounds lo m up)
       (and_then (validate_standard_deviation sd) (Inr (LaplaceObj n lo up m sd)))"

definition StudentsTPrior ::
  "pyfloat \<Rightarrow> pyfloat \<Rightarrow> pyfloat \<Rightarrow> pyfloat \<Rightarrow> pyfloat \<Rightarrow> string option \<Rightarrow> error + prior" where
  "StudentsTPrior m sd v lo up n =
     and_then (validate_bounds lo m up)
       (and_then (validate_standard_deviation sd)
         (and_then (validate_nu v) (Inr (StudentsTObj n lo up m sd v))))"

definition LogGaussianPrior ::
  "pyfloat \<Rightarrow> pyfloat \<Rightarrow> pyfloat \<Rightarrow> pyfloat \<Rightarrow> pyfloat \<Rightarrow> string option \<Rightarrow> error + prior" where
  "LogGaussianPrior m sd e lo up n =
     and_then (validate_bounds lo m up)
       (and_then (validate_standard_deviation sd) (Inr (LogGaussianObj n lo up m sd e)))"

definition LogLaplacePrior ::
  "pyfloat \<Rightarrow> pyfloat \<Rightarrow> pyfloat \<Rightarrow> pyfloat \<Rightarrow> pyfloat \<Rightarrow> string option \<Rightarrow> error + prior" where
  "LogLaplacePrior m sd e lo up n =
     and_then (validate_bounds lo m up)
       (and_then (validate_standard_deviation sd) (Inr (LogLaplaceObj n lo up m sd e)))"

definition LogStudentsTPrior ::
  "pyfloat \<Rightarrow> pyfloat \<Rightarrow> pyfloat \<Rightarrow> pyfloat \<Rightarrow> pyfloat \<Rightarrow> pyfloat \<Rightarrow> string option
     \<Rightarrow> error + prior" where
  "LogStudentsTPrior m sd v e lo up n =
     and_then (validate_bounds lo m up)
       (and_then (validate_standard_deviation sd)
         (and_then (validate_nu v) (Inr (LogStudentsTObj n lo up m sd v e))))"

text \<open>
  The exception a constructor call ends in, if any: \<open>is_ValueError r\<close> says that the call
  raised \<open>ValueError\<close> and returned no object.
\<close>

fun is_ValueError :: "error + 'a \<Rightarrow> bool" where
  "is_ValueError (Inl (ValueError msg)) = True"
| "is_ValueError r = False"

section \<open>cascade/model/covariates.py\<close>

subsection \<open>The conversion \<open>float(x)\<close>\<close>

text \<open>
  The numbers a caller passes to the setters: a Python \<open>int\<close>, which is unbounded, or a
  Python \<open>float\<close>.
\<close>

datatype pynumber = PyInt int | PyFloat pyfloat

text \<open>The number of binary digits of a natural number (\<open>int.bit_length\<close>).\<close>

function bit_length :: "nat \<Rightarrow> nat" where
  "bit_length n = (if n = 0 then 0 else Suc (bit_length (n div 2)))"
  by pat_completeness auto
termination
  by (relation "measure id") auto

declare bit_length.simps [simp del]

text \<open>
  A double has 53 significant binary digits. A magnitude with more digits is rounded to
  the nearest multiple of \<open>2 ^ shift\<close> that has 53 digits, a tie going to the even
  neighbour.
\<close>

definition round_half_even :: "nat \<Rightarrow> nat" where
  "round_half_even n =
     (if bit_length n \<le> 53 then n
      else (let shift = bit_length n - 53;
                q = n div 2 ^ shift;
                rest = n mod 2 ^ shift;
                half = 2 ^ (shift - 1)
            in (if half < rest \<or> (rest = half \<and> odd q) then q + 1 else q) * 2 ^ shift))"

text \<open>
  \<open>float(i)\<close> for an \<open>int\<close>: the rounded value, or \<open>OverflowError\<close> when the rounded
  magnitude reaches \<open>2 ^ 1024\<close>, which no double holds.
\<close>

definition float_of_int :: "int \<Rightarrow> error + pyfloat" where
  "float_of_int i =
     (let m = round_half_even (nat \<bar>i\<bar>)
      in if 2 ^ 1024 \<le> m then Inl (OverflowError ''int too large to convert to float'')
         else Inr (Fin (if i < 0 then - real m else real m)))"

text \<open>\<open>float(x)\<close>: a float is returned as it is.\<close>

fun py_float :: "pynumber \<Rightarrow> error + pyfloat" where
  "py_float (PyInt i) = float_of_int i"
| "py_float (PyFloat x) = Inr x"

subsection \<open>The covariate column\<close>

text \<open>
  A \<open>CovariateColumn\<close> object: the three private attributes, each \<open>None\<close> until set.
\<close>

record covariate_column =
  cc_name :: "string option"
  cc_reference :: "pyfloat option"
  cc_max_difference :: "pyfloat option"

text \<open>
  The setter of the property \<open>max_difference\<close>. The argument is \<open>None\<close> or a number.
  A setter mutates the object, so the model returns the object after the call together
  with the exception raised, if any: the one of \<open>float(difference)\<close>, or the
  \<open>ValueError\<close> of the guard. The message of the \<open>ValueError\<close> ends with the rendering of
  the offending value, which is left out.
\<close>

definition set_max_difference ::
  "covariate_column \<Rightarrow> pynumber option \<Rightarrow> covariate_column \<times> error option" where
  "set_max_difference self difference =
     (case difference of
        None \<Rightarrow> (self\<lparr>cc_max_difference := None\<rparr>, None)
      | Some d \<Rightarrow>
          (case py_float d of
             Inl e \<Rightarrow> (self, Some e)
           | Inr diff \<Rightarrow>
               if py_le diff (Fin 0)
               then (self, Some (ValueError ''max difference must be positive''))
               else (self\<lparr>cc_max_difference := Some diff\<rparr>, None)))"

definition set_name :: "covariate_column \<Rightarrow> string \<Rightarrow> covariate_column \<times> error option" where
  "set_name self nom =
     (if length nom < 1
      then (self, Some (ValueError ''CovariateColumn name must not be empty string''))
      else (self\<lparr>cc_name := Some nom\<rparr>, None))"

definition set_reference ::
  "covariate_column \<Rightarrow> pynumber \<Rightarrow> covariate_column \<times> error option" where
  "set_reference self ref =
     (case py_float ref of
        Inl e \<Rightarrow> (self, Some e)
      | Inr x \<Rightarrow> (self\<lparr>cc_reference := Some x\<rparr>, None))"

text \<open>\<open>CovariateColumn.__init__\<close>: an exception of a setter ends the construction.\<close>

definition CovariateColumn ::
  "string \<Rightarrow> pynumber option \<Rightarrow> pynumber option \<Rightarrow> error + covariate_column" where
  "CovariateColumn column_name reference max_difference =
     (let self0 = \<lparr>cc_name = None, cc_reference = None, cc_max_difference = None\<rparr> in
      case set_name self0 column_name of
        (_, Some e) \<Rightarrow> Inl e
      | (self1, None) \<Rightarrow>
          (case (case reference of None \<Rightarrow> (self1, None) | Some r \<Rightarrow> set_reference self1 r) of
             (_, Some e) \<Rightarrow> Inl e
           | (self2, None) \<Rightarrow>
               (case set_max_difference self2 max_difference of
                  (_, Some e) \<Rightarrow> Inl e
                | (self3, None) \<Rightarrow> Inr self3)))"

section \<open>cascade/model/session.py\<close>

subsection \<open>Strings\<close>

text \<open>Python's \<open>s in t\<close> on strings: \<open>s\<close> occurs in \<open>t\<close> as a contiguous substring.\<close>

fun py_in :: "string \<Rightarrow> string \<Rightarrow> bool" where
  "py_in s [] = (s = [])"
| "py_in s (c # cs) = (take (length s) (c # cs) = s \<or> py_in s cs)"

text \<open>\<open>str\<close> of an integer: its decimal digits, with a minus sign when negative.\<close>

function str_of_nat :: "nat \<Rightarrow> string" where
  "str_of_nat n =
     (if n < 10 then [''0123456789'' ! n]
      else str_of_nat (n div 10) @ [''0123456789'' ! (n mod 10)])"
  by pat_completeness auto
termination
  by (relation "measure id") auto

declare str_of_nat.simps [simp del]

definition str_of_int :: "int \<Rightarrow> string" where
  "str_of_int i = (if i < 0 then CHR ''-'' # str_of_nat (nat (- i)) else str_of_nat (nat i))"

subsection \<open>Data frames\<close>

text \<open>
  The part of a pandas \<open>DataFrame\<close> that the session reads and writes: the row labels
  (\<open>data.index\<close>) and the columns in their order, each with one cell per row. Column labels
  are taken to be distinct strings. A cell is an integer, a float, a string or \<open>None\<close>;
  a row label is an integer or a string.
\<close>

datatype cell = CInt int | CFloat pyfloat | CStr string | CNone

datatype label = LInt int | LStr string

record dataframe =
  index :: "label list"
  columns :: "(string \<times> cell list) list"

fun str_of_label :: "label \<Rightarrow> string" where
  "str_of_label (LInt i) = str_of_int i"
| "str_of_label (LStr s) = s"

text \<open>\<open>pandas.isnull\<close> on a cell: \<open>None\<close> and NaN are null.\<close>

fun isnull :: "cell \<Rightarrow> bool" where
  "isnull CNone = True"
| "isnull (CFloat NaN) = True"
| "isnull c = False"

text \<open>\<open>c in data.columns\<close> and \<open>data[c]\<close>.\<close>

definition has_column :: "dataframe \<Rightarrow> string \<Rightarrow> bool" where
  "has_column data c = (c \<in> set (map fst (columns data)))"

definition get_column :: "dataframe \<Rightarrow> string \<Rightarrow> cell list option" where
  "get_column data c = map_of (columns data) c"

text \<open>
  \<open>data.assign(c=values)\<close> returns a frame in which column \<open>c\<close> holds \<open>values\<close>: an
  existing column keeps its place, a new one is appended. A scalar is repeated for every
  row.
\<close>

definition assign :: "dataframe \<Rightarrow> string \<Rightarrow> cell list \<Rightarrow> dataframe" where
  "assign data c vs =
     (if has_column data c
      then data\<lparr>columns := map (\<lambda>(k, old). if k = c then (k, vs) else (k, old)) (columns data)\<rparr>
      else data\<lparr>columns := columns data @ [(c, vs)]\<rparr>)"

definition assign_scalar :: "dataframe \<Rightarrow> string \<Rightarrow> cell \<Rightarrow> dataframe" where
  "assign_scalar data c v = assign data c (replicate (length (index data)) v)"

text \<open>\<open>data.drop(columns=cs)\<close>, for labels \<open>cs\<close> that are all columns of the frame.\<close>

definition drop_columns :: "dataframe \<Rightarrow> string list \<Rightarrow> dataframe" where
  "drop_columns data cs = data\<lparr>columns := filter (\<lambda>(k, vs). k \<notin> set cs) (columns data)\<rparr>"

subsection \<open>Data normalization\<close>

text \<open>
  One pass of the inner loop of \<open>_point_age_time_to_interval\<close>, for the point column
  \<open>at_name\<close> and the bound \<open>lu\<close>.
\<close>

definition point_step :: "dataframe \<Rightarrow> string \<times> string \<Rightarrow> dataframe" where
  "point_step data p =
     (case p of (at_name, lu) \<Rightarrow>
        (if \<not> has_column data (at_name @ ''_'' @ lu) \<and> has_column data at_name
         then (case get_column data at_name of
                 Some vs \<Rightarrow> assign data (at_name @ ''_'' @ lu) vs
               | None \<Rightarrow> data)
         else data))"

text \<open>
  \<open>_point_age_time_to_interval\<close>: \<open>None\<close> is returned as it is; otherwise the two nested
  loops run in the order of the source and the point columns that exist are dropped.
\<close>

definition point_age_time_to_interval :: "dataframe option \<Rightarrow> dataframe option" where
  "point_age_time_to_interval data =
     (case data of
        None \<Rightarrow> None
      | Some d \<Rightarrow>
          (let d' = foldl point_step d
                      [(''age'', ''lower''), (''age'', ''upper''),
                       (''time'', ''lower''), (''time'', ''upper'')]
           in Some (drop_columns d' (filter (has_column d') [''age'', ''time'']))))"

text \<open>The loop over \<open>nu\<close> and \<open>eta\<close> at the end of \<open>_amend_data_input\<close>.\<close>

definition add_unspecified :: "dataframe \<Rightarrow> string \<Rightarrow> dataframe" where
  "add_unspecified data additional =
     (if \<not> has_column data additional then assign_scalar data additional (CFloat NaN) else data)"

text \<open>
  \<open>_amend_data_input\<close>. With \<open>data = None\<close> the first read of \<open>data.columns\<close> raises
  \<open>AttributeError\<close>. The message of the \<open>RuntimeError\<close> ends with the rendering of the
  offending rows, which is left out.
\<close>

definition amend_data_input :: "dataframe option \<Rightarrow> error + dataframe" where
  "amend_data_input data =
     (case point_age_time_to_interval data of
        None \<Rightarrow> Inl (AttributeError ''NoneType object has no attribute columns'')
      | Some d \<Rightarrow>
          (case (if \<not> has_column d ''name''
                 then Inr (assign d ''name'' (map (\<lambda>l. CStr (str_of_label l)) (index d)))
                 else (case get_column d ''name'' of
                         None \<Rightarrow> Inr d
                       | Some names \<Rightarrow>
                           if filter isnull names \<noteq> []
                           then Inl (RuntimeError
                                  ''There are some data values that lack data names. '')
                           else Inr d)) of
             Inl e \<Rightarrow> Inl e
           | Inr d1 \<Rightarrow>
               (let d2 = (if \<not> has_column d1 ''hold_out''
                          then assign_scalar d1 ''hold_out'' (CInt 0) else d1)
                in Inr (foldl add_unspecified d2 [''nu'', ''eta'']))))"

subsection \<open>The two halves of the normalization\<close>

text \<open>
  The middle and the end of \<open>_amend_data_input\<close> as functions of their own, used to
  reason about it step by step: the treatment of the \<open>name\<close> column, and the defaults for
  \<open>hold_out\<close>, \<open>nu\<close> and \<open>eta\<close>. Lemma \<open>amend_unfold\<close> shows that
  \<open>amend_data_input\<close> is their composition after \<open>point_age_time_to_interval\<close>.
\<close>

definition name_step :: "dataframe \<Rightarrow> error + dataframe" where
  "name_step d =
     (if \<not> has_column d ''name''
      then Inr (assign d ''name'' (map (\<lambda>l. CStr (str_of_label l)) (index d)))
      else (case get_column d ''name'' of
              None \<Rightarrow> Inr d
            | Some names \<Rightarrow>
                if filter isnull names \<noteq> []
                then Inl (RuntimeError ''There are some data values that lack data names. '')
                else Inr d))"

definition fill_step :: "dataframe \<Rightarrow> dataframe" where
  "fill_step d1 =
     add_unspecified (add_unspecified
       (if \<not> has_column d1 ''hold_out'' then assign_scalar d1 ''hold_out'' (CInt 0) else d1)
       ''nu'') ''eta''"

text \<open>
  What a normalized table looks like: no point columns, a \<open>name\<close> column without nulls,
  and the three optional columns present.
\<close>

definition normalized :: "dataframe \<Rightarrow> bool" where
  "normalized d \<longleftrightarrow>
     \<not> has_column d ''age'' \<and> \<not> has_column d ''time'' \<and>
     (\<exists>names. get_column d ''name'' = Some names \<and> filter isnull names = []) \<and>
     has_column d ''hold_out'' \<and> has_column d ''nu'' \<and> has_column d ''eta''"

subsection \<open>Running a command\<close>

text \<open>
  What one run of the external program leaves behind: the triple returned by
  \<open>run_with_logging\<close> and the messages of the log table (\<open>self._objects.log.message\<close>, in
  row order) as read after the run.
\<close>

record proc_result =
  return_code :: int
  stdout :: string
  stderr :: string
  log_message :: "string list"

text \<open>
  The calls that leave the session, in the order they are made: writes to the store
  through the object wrapper, the hand-over of the store file around the external program,
  and log records.
\<close>

datatype event =
    SetModel
  | SetOption "(string \<times> string) list"
  | SetData "dataframe option"
  | SetStartVar
  | SetScaleVar
  | SetTruthVar
  | Flush
  | CloseDb
  | RunProcess "string list"
  | ReopenDb
  | Refresh "string list"
  | LogInfo string
  | LogWarning string

text \<open>
  The collaborators that are not part of this module, taken as parameters: the external
  program, the table \<open>COMMAND_IO\<close> (the output tables of a command, if it has an entry), and
  of the model and variable classes the method \<open>check_alignment\<close>, the truth value of a
  variable object and the two model attributes that \<open>fit\<close> and \<open>setup_model_for_fit\<close>
  read.

  Modelled from the spec: \<open>check_alignment\<close> returns a text that names the mismatched keys,
  and the empty text when model and variables align.
\<close>

record ('m, 'v) collaborators =
  run_with_logging :: "string list \<Rightarrow> proc_result"
  command_io :: "string \<Rightarrow> string list option"
  check_alignment :: "'m \<Rightarrow> 'v \<Rightarrow> string"
  var_truthy :: "'v \<Rightarrow> bool"
  random_effect :: "'m \<Rightarrow> bool"
  scale_set_by_user :: "'m \<Rightarrow> bool"

record session =
  filename :: string
  options :: "(string \<times> string) list"

record fit_result =
  dismod_out :: string
  dismod_err :: string

record simulate_result =
  sim_count :: int
  sim_data :: dataframe

text \<open>A call that may raise, with the events it made before it returned or raised.\<close>

type_synonym 'a traced = "(error + 'a) \<times> event list"

definition then_do :: "'a traced \<Rightarrow> ('a \<Rightarrow> 'b traced) \<Rightarrow> 'b traced" where
  "then_do m f =
     (case m of
        (Inl e, t) \<Rightarrow> (Inl e, t)
      | (Inr x, t) \<Rightarrow> (case f x of (r, t') \<Rightarrow> (r, t @ t')))"

text \<open>
  \<open>_check_dismod_command\<close>, on the messages of the log table. Returning normally is
  \<open>Inr ()\<close>; the warning of the second branch is the event \<open>LogWarning\<close>.
\<close>

definition check_dismod_command :: "string list \<Rightarrow> string \<Rightarrow> string \<Rightarrow> string \<Rightarrow> unit traced" where
  "check_dismod_command lg command out err =
     (let oom_sentinel = ''std:bad_alloc'';
          max_iter_sentinel = ''Maximum Number of Iterations Exceeded''
      in if length lg = 0 \<or> \<not> py_in (''end '' @ command) (last lg)
         then (if py_in oom_sentinel out \<or> py_in oom_sentinel err
               then (Inl (DismodATException ''Dismod-AT ran out of memory''), [])
               else if py_in max_iter_sentinel out \<or> py_in max_iter_sentinel err
               then (Inr (), [LogWarning ''Dismod-AT exceeded iterations''])
               else (Inl (DismodATException
                       (''Dismod-AT failed to complete '' @ [CHR 0x27] @ command @ [CHR 0x27]
                        @ '' command'')), []))
         else (Inr (), []))"

text \<open>The events \<open>t\<close> made so far, put before those of the call \<open>m\<close>.\<close>

definition ran_then :: "'a traced \<Rightarrow> event list \<Rightarrow> 'a traced" where
  "ran_then m t = (case m of (r, t') \<Rightarrow> (r, t @ t'))"

text \<open>
  \<open>_run_dismod\<close>, for a command whose tokens are already strings. The store is flushed and
  closed, the program runs, the store is reopened; then the check, then the assertion on
  the return code, then the refresh of the command's output tables. The debug record of
  the code logger is not among the events.
\<close>

definition run_dismod ::
  "('m, 'v) collaborators \<Rightarrow> session \<Rightarrow> string list \<Rightarrow> (string \<times> string) traced" where
  "run_dismod env self command =
     (let args = [''dmdismod'', filename self] @ command;
          r = run_with_logging env args;
          ran = [Flush, CloseDb, RunProcess args, ReopenDb]
      in case command of
           [] \<Rightarrow> (Inl (IndexError ''list index out of range''), ran)
         | c # cs \<Rightarrow>
             then_do (ran_then (check_dismod_command (log_message r) c (stdout r) (stderr r)) ran)
               (\<lambda>u. if return_code r \<noteq> 0
                    then (Inl (AssertionError (''return code is '' @ str_of_int (return_code r))), [])
                    else (Inr (stdout r, stderr r),
                          (case command_io env c of None \<Rightarrow> [] | Some outs \<Rightarrow> [Refresh outs]))))"

subsection \<open>Fit and simulate\<close>

text \<open>
  The guard shared by \<open>_fit\<close> and \<open>simulate\<close>: \<open>if var: misalignment =
  model.check_alignment(var); if misalignment: raise\<close>. It yields the misalignment that
  makes the caller raise, if there is one. The alignment is only checked for a variable
  object that Python takes as true.
\<close>

definition misalignment_of :: "('m, 'v) collaborators \<Rightarrow> 'm \<Rightarrow> 'v option \<Rightarrow> string option" where
  "misalignment_of env model var =
     (case var of
        None \<Rightarrow> None
      | Some g \<Rightarrow>
          if var_truthy env g
          then (let misalignment = check_alignment env model g
                in if misalignment \<noteq> [] then Some misalignment else None)
          else None)"

text \<open>
  \<open>setup_model_for_fit\<close>. In the last branch the scale read from the store is kept in the
  model object, which makes no call outside the session.
\<close>

definition setup_model_for_fit ::
  "('m, 'v) collaborators \<Rightarrow> session \<Rightarrow> 'm \<Rightarrow> dataframe option \<Rightarrow> 'v option \<Rightarrow> unit traced" where
  "setup_model_for_fit env self model data initial_guess =
     (let data' = point_age_time_to_interval data
      in then_do
           (ran_then (run_dismod env self [''init''])
              [SetModel, SetOption (options self), SetData data'])
           (\<lambda>out_err.
              if scale_set_by_user env model then (Inr (), [SetScaleVar])
              else if initial_guess \<noteq> None then (Inr (), [SetScaleVar])
              else (Inr (), [])))"

text \<open>
  \<open>_fit\<close>. The result object keeps the two captured outputs; its variables are read
  from the store when asked for.
\<close>

definition fit_level_impl ::
  "('m, 'v) collaborators \<Rightarrow> session \<Rightarrow> string \<Rightarrow> 'm \<Rightarrow> dataframe option \<Rightarrow> 'v option
     \<Rightarrow> fit_result traced" where
  "fit_level_impl env self fit_level model data initial_guess =
     (case misalignment_of env model initial_guess of
        Some misalignment \<Rightarrow>
          (Inl (RuntimeError
             (''Model and initial guess are misaligned: '' @ misalignment @ ''.'')), [])
      | None \<Rightarrow>
          (case amend_data_input data of
             Inl e \<Rightarrow> (Inl e, [])
           | Inr data' \<Rightarrow>
               then_do (setup_model_for_fit env self model (Some data') initial_guess)
                 (\<lambda>u. then_do
                    (ran_then (run_dismod env self [''fit'', fit_level])
                       (if initial_guess \<noteq> None
                        then [LogInfo ''Setting initial value for search from user argument.'',
                              SetStartVar]
                        else []))
                    (\<lambda>(dm_out, dm_err).
                       (Inr \<lparr>dismod_out = dm_out, dismod_err = dm_err\<rparr>, [])))))"

text \<open>\<open>fit\<close>, \<open>fit_fixed\<close> and \<open>fit_random\<close>.\<close>

definition fit ::
  "('m, 'v) collaborators \<Rightarrow> session \<Rightarrow> 'm \<Rightarrow> dataframe option \<Rightarrow> 'v option
     \<Rightarrow> fit_result traced" where
  "fit env self model data initial_guess =
     (if random_effect env model
      then ran_then (fit_level_impl env self ''both'' model data initial_guess)
             [LogInfo ''Running fit both.'']
      else ran_then (fit_level_impl env self ''fixed'' model data initial_guess)
             [LogInfo ''Running fit fixed.''])"

definition fit_fixed ::
  "('m, 'v) collaborators \<Rightarrow> session \<Rightarrow> 'm \<Rightarrow> dataframe option \<Rightarrow> 'v option
     \<Rightarrow> fit_result traced" where
  "fit_fixed env self model data initial_guess =
     fit_level_impl env self ''fixed'' model data initial_guess"

definition fit_random ::
  "('m, 'v) collaborators \<Rightarrow> session \<Rightarrow> 'm \<Rightarrow> dataframe option \<Rightarrow> 'v option
     \<Rightarrow> fit_result traced" where
  "fit_random env self model data initial_guess =
     fit_level_impl env self ''random'' model data initial_guess"

text \<open>\<open>simulate\<close>: the data are normalized first, then the guard runs.\<close>

definition simulate ::
  "('m, 'v) collaborators \<Rightarrow> session \<Rightarrow> 'm \<Rightarrow> dataframe option \<Rightarrow> 'v option \<Rightarrow> int
     \<Rightarrow> simulate_result traced" where
  "simulate env self model data fit_var simulate_count =
     (case amend_data_input data of
        Inl e \<Rightarrow> (Inl e, [])
      | Inr data' \<Rightarrow>
          (case misalignment_of env model fit_var of
             Some misalignment \<Rightarrow>
               (Inl (RuntimeError
                  (''Model and fit var are misaligned: '' @ misalignment @ ''.'')), [])
           | None \<Rightarrow>
               then_do (setup_model_for_fit env self model (Some data') fit_var)
                 (\<lambda>u. then_do
                    (ran_then (run_dismod env self [''simulate'', str_of_int simulate_count])
                       [SetTruthVar])
                    (\<lambda>out_err.
                       (Inr \<lparr>sim_count = simulate_count, sim_data = data'\<rparr>, [])))))"

text \<open>
  The events that write to the store or hand it to the external program, as opposed to
  log records.
\<close>

fun is_io :: "event \<Rightarrow> bool" where
  "is_io (LogInfo msg) = False"
| "is_io (LogWarning msg) = False"
| "is_io ev = True"

section \<open>The age-time grid\<close>

text \<open>
  Modelled from the spec: the module \<open>cascade.model.age_time_grid\<close> (class
  \<open>AgeTimeGrid\<close>: construction, range selection and range assignment) is missing; only its
  tests are present. The definitions below follow the words of the specification.

  An \<open>ages\<close> or \<open>times\<close> argument is a sequence or, wrongly, a single number; the columns
  are a sequence of names or a single name standing for one column.
\<close>

datatype 'a pyarg = Scalar 'a | Seq "'a list"

text \<open>
  Modelled from the spec: the primary store of the missing class \<open>AgeTimeGrid\<close> has one
  row per (age, time) pair, carrying the declared columns, unset (\<open>None\<close>) until
  written; the secondary store \<open>mulstd\<close> has one row per kind of prior (value, dage,
  dtime).
\<close>

record 'v grid_row =
  age :: real
  time :: real
  vals :: "(string \<times> 'v option) list"

record 'v mulstd_row =
  kind :: string
  mvals :: "(string \<times> 'v option) list"

record 'v age_time_grid =
  ages :: "real list"
  times :: "real list"
  col_names :: "string list"
  rows :: "'v grid_row list"
  mulstd :: "'v mulstd_row list"

text \<open>
  Modelled from the spec: \<open>Construct(ages, times, columns)\<close> of the missing class
  \<open>AgeTimeGrid\<close> produces the full Cartesian
  grid plus the three-row side table, every column unset; construction with non-sequence
  scalars fails with a type error. The specification gives no failure for an empty
  sequence or for repeated values, so the product is built for every pair of sequences.
\<close>

definition AgeTimeGrid ::
  "real pyarg \<Rightarrow> real pyarg \<Rightarrow> string pyarg \<Rightarrow> error + 'v age_time_grid" where
  "AgeTimeGrid ages_arg times_arg columns_arg =
     (let cols = (case columns_arg of Scalar c \<Rightarrow> [c] | Seq cs \<Rightarrow> cs);
          unset = map (\<lambda>c. (c, None)) cols
      in case (ages_arg, times_arg) of
           (Seq as, Seq ts) \<Rightarrow>
             Inr \<lparr>ages = as, times = ts, col_names = cols,
                  rows = concat (map (\<lambda>a. map (\<lambda>t. \<lparr>age = a, time = t, vals = unset\<rparr>) ts) as),
                  mulstd = map (\<lambda>k. \<lparr>kind = k, mvals = unset\<rparr>) [''value'', ''dage'', ''dtime'']\<rparr>
         | _ \<Rightarrow> Inl (TypeError ''ages and times must be sequences''))"

text \<open>
  Modelled from the spec: a range \<open>a0:a1\<close> of the missing class is a closed interval, and
  an open bound means no restriction on that side.
\<close>

type_synonym slice = "real option \<times> real option"

definition in_slice :: "slice \<Rightarrow> real \<Rightarrow> bool" where
  "in_slice sl x =
     (case sl of (lo, hi) \<Rightarrow>
        (case lo of None \<Rightarrow> True | Some l \<Rightarrow> l \<le> x) \<and> (case hi of None \<Rightarrow> True | Some h \<Rightarrow> x \<le> h))"

text \<open>
  Modelled from the spec: the rows selected by \<open>grid[a0:a1, t0:t1]\<close> of the missing class
  are those whose age lies in the age interval and whose time lies in the time interval.
\<close>

definition matches :: "slice \<Rightarrow> slice \<Rightarrow> 'v grid_row \<Rightarrow> bool" where
  "matches age_slice time_slice r = (in_slice age_slice (age r) \<and> in_slice time_slice (time r))"

text \<open>
  Modelled from the spec: the value assigned to a range of the missing class is a single
  scalar (broadcast to every column), a sequence (one value per column, in column order),
  or a mapping keyed by column name (written onto the named columns only).
\<close>

datatype 'v assigned = One 'v | Many "'v list" | Mapping "(string \<times> 'v) list"

text \<open>
  Modelled from the spec: what an assignment of the missing class writes into one
  matched row; the key of the row stays.
\<close>

definition write_row :: "string list \<Rightarrow> 'v assigned \<Rightarrow> 'v grid_row \<Rightarrow> 'v grid_row" where
  "write_row cols v r =
     (case v of
        One x \<Rightarrow> r\<lparr>vals := map (\<lambda>c. (c, Some x)) cols\<rparr>
      | Many xs \<Rightarrow> r\<lparr>vals := zip cols (map Some xs)\<rparr>
      | Mapping m \<Rightarrow>
          r\<lparr>vals := map (\<lambda>(c, old). case map_of m c of None \<Rightarrow> (c, old) | Some x \<Rightarrow> (c, Some x))
                       (vals r)\<rparr>)"

text \<open>
  Modelled from the spec: range assignment \<open>grid[a0:a1, t0:t1] = value\<close> of the missing
  class fails with a range error if zero rows match the interval, fails with a shape
  error if a sequence value's length does not equal the column count, and otherwise
  writes the value to every matched row.
\<close>

definition set_range ::
  "'v age_time_grid \<Rightarrow> slice \<Rightarrow> slice \<Rightarrow> 'v assigned \<Rightarrow> error + 'v age_time_grid" where
  "set_range g age_slice time_slice v =
     (if filter (matches age_slice time_slice) (rows g) = []
      then Inl (RangeError ''no rows match the selection'')
      else (case v of
              Many xs \<Rightarrow>
                if length xs \<noteq> length (col_names g)
                then Inl (ShapeError ''value length does not equal the column count'')
                else Inr (g\<lparr>rows := map (\<lambda>r. if matches age_slice time_slice r
                                              then write_row (col_names g) v r else r) (rows g)\<rparr>)
            | _ \<Rightarrow>
                Inr (g\<lparr>rows := map (\<lambda>r. if matches age_slice time_slice r
                                         then write_row (col_names g) v r else r) (rows g)\<rparr>)))"

text \<open>
  A grid as the construction makes it from the ages 0 and 10, the times 2000 and 2010 and
  the single column \<open>var_id\<close>, every value unset.
\<close>

definition example_grid :: "real age_time_grid" where
  "example_grid =
     \<lparr>ages = [0, 10], times = [2000, 2010], col_names = [''var_id''],
      rows = [\<lparr>age = 0, time = 2000, vals = [(''var_id'', None)]\<rparr>,
              \<lparr>age = 0, time = 2010, vals = [(''var_id'', None)]\<rparr>,
              \<lparr>age = 10, time = 2000, vals = [(''var_id'', None)]\<rparr>,
              \<lparr>age = 10, time = 2010, vals = [(''var_id'', None)]\<rparr>],
      mulstd = [\<lparr>kind = ''value'', mvals = [(''var_id'', None)]\<rparr>,
                \<lparr>kind = ''dage'', mvals = [(''var_id'', None)]\<rparr>,
                \<lparr>kind = ''dtime'', mvals = [(''var_id'', None)]\<rparr>]\<rparr>"

section \<open>Properties of the priors\<close>

lemma py_gt_not_le: "py_gt x y \<Longrightarrow> \<not> py_le x y"
  unfolding py_gt_def by (cases x; cases y) auto

lemmas prior_ctor_defs =
  UniformPrior_def GaussianPrior_def LaplacePrior_def LogGaussianPrior_def LogLaplacePrior_def
  StudentsTPrior_def LogStudentsTPrior_def validate_bounds_def validate_standard_deviation_def
  validate_nu_def

lemma uniform_fails:
  "is_ValueError (UniformPrior m lo up n) \<longleftrightarrow> \<not> (py_le lo m \<and> py_le m up)"
  by (simp add: prior_ctor_defs)

lemma gaussian_fails:
  "is_ValueError (GaussianPrior m sd lo up n) \<longleftrightarrow>
     \<not> (py_le lo m \<and> py_le m up) \<or> py_lt sd (Fin 0)"
  "is_ValueError (LaplacePrior m sd lo up n) \<longleftrightarrow>
     \<not> (py_le lo m \<and> py_le m up) \<or> py_lt sd (Fin 0)"
  "is_ValueError (LogGaussianPrior m sd e lo up n) \<longleftrightarrow>
     \<not> (py_le lo m \<and> py_le m up) \<or> py_lt sd (Fin 0)"
  "is_ValueError (LogLaplacePrior m sd e lo up n) \<longleftrightarrow>
     \<not> (py_le lo m \<and> py_le m up) \<or> py_lt sd (Fin 0)"
  by (simp_all add: prior_ctor_defs)

lemma students_fails:
  "is_ValueError (StudentsTPrior m sd v lo up n) \<longleftrightarrow>
     \<not> (py_le lo m \<and> py_le m up) \<or> py_lt sd (Fin 0) \<or> py_lt v (Fin 0)"
  "is_ValueError (LogStudentsTPrior m sd v e lo up n) \<longleftrightarrow>
     \<not> (py_le lo m \<and> py_le m up) \<or> py_lt sd (Fin 0) \<or> py_lt v (Fin 0)"
  by (simp_all add: prior_ctor_defs)

lemma prior_constructs:
  "py_le lo m \<and> py_le m up \<Longrightarrow> UniformPrior m lo up n = Inr (UniformObj n lo up m)"
  "py_le lo m \<and> py_le m up \<and> \<not> py_lt sd (Fin 0) \<Longrightarrow>
     GaussianPrior m sd lo up n = Inr (GaussianObj n lo up m sd)"
  "py_le lo m \<and> py_le m up \<and> \<not> py_lt sd (Fin 0) \<Longrightarrow>
     LaplacePrior m sd lo up n = Inr (LaplaceObj n lo up m sd)"
  "py_le lo m \<and> py_le m up \<and> \<not> py_lt sd (Fin 0) \<Longrightarrow>
     LogGaussianPrior m sd e lo up n = Inr (LogGaussianObj n lo up m sd e)"
  "py_le lo m \<and> py_le m up \<and> \<not> py_lt sd (Fin 0) \<Longrightarrow>
     LogLaplacePrior m sd e lo up n = Inr (LogLaplaceObj n lo up m sd e)"
  "py_le lo m \<and> py_le m up \<and> \<not> py_lt sd (Fin 0) \<and> \<not> py_lt v (Fin 0) \<Longrightarrow>
     StudentsTPrior m sd v lo up n = Inr (StudentsTObj n lo up m sd v)"
  "py_le lo m \<and> py_le m up \<and> \<not> py_lt sd (Fin 0) \<and> \<not> py_lt v (Fin 0) \<Longrightarrow>
     LogStudentsTPrior m sd v e lo up n = Inr (LogStudentsTObj n lo up m sd v e)"
  by (simp_all add: prior_ctor_defs)

text \<open>
  Claim C3. Every constructor of a prior raises \<open>ValueError\<close>, and returns no object,
  whenever \<open>lower > mean\<close> or \<open>mean > upper\<close>, and, for the classes that take them,
  whenever \<open>standard_deviation < 0\<close> or \<open>nu < 0\<close>. When the bounds hold (equality
  included) and neither sign test fires (zero included), the object is constructed with
  the attributes given. In particular \<open>UniformPrior(mean=1, lower=0, upper=2)\<close> and
  \<open>GaussianPrior(mean=0, standard_deviation=0)\<close> construct, while
  \<open>UniformPrior(mean=5, lower=0, upper=2)\<close> and
  \<open>GaussianPrior(mean=0, standard_deviation=-1)\<close> raise.
\<close>

theorem prior_construction_validates:
  "(py_gt lo m \<or> py_gt m up \<longrightarrow>
      is_ValueError (UniformPrior m lo up n) \<and>
      is_ValueError (GaussianPrior m sd lo up n) \<and>
      is_ValueError (LaplacePrior m sd lo up n) \<and>
      is_ValueError (StudentsTPrior m sd v lo up n) \<and>
      is_ValueError (LogGaussianPrior m sd e lo up n) \<and>
      is_ValueError (LogLaplacePrior m sd e lo up n) \<and>
      is_ValueError (LogStudentsTPrior m sd v e lo up n)) \<and>
   (py_lt sd (Fin 0) \<longrightarrow>
      is_ValueError (GaussianPrior m sd lo up n) \<and>
      is_ValueError (LaplacePrior m sd lo up n) \<and>
      is_ValueError (StudentsTPrior m sd v lo up n) \<and>
      is_ValueError (LogGaussianPrior m sd e lo up n) \<and>
      is_ValueError (LogLaplacePrior m sd e lo up n) \<and>
      is_ValueError (LogStudentsTPrior m sd v e lo up n)) \<and>
   (py_lt v (Fin 0) \<longrightarrow>
      is_ValueError (StudentsTPrior m sd v lo up n) \<and>
      is_ValueError (LogStudentsTPrior m sd v e lo up n)) \<and>
   (py_le lo m \<and> py_le m up \<longrightarrow>
      UniformPrior m lo up n = Inr (UniformObj n lo up m)) \<and>
   (py_le lo m \<and> py_le m up \<and> \<not> py_lt sd (Fin 0) \<longrightarrow>
      GaussianPrior m sd lo up n = Inr (GaussianObj n lo up m sd) \<and>
      LaplacePrior m sd lo up n = Inr (LaplaceObj n lo up m sd) \<and>
      LogGaussianPrior m sd e lo up n = Inr (LogGaussianObj n lo up m sd e) \<and>
      LogLaplacePrior m sd e lo up n = Inr (LogLaplaceObj n lo up m sd e)) \<and>
   (py_le lo m \<and> py_le m up \<and> \<not> py_lt sd (Fin 0) \<and> \<not> py_lt v (Fin 0) \<longrightarrow>
      StudentsTPrior m sd v lo up n = Inr (StudentsTObj n lo up m sd v) \<and>
      LogStudentsTPrior m sd v e lo up n = Inr (LogStudentsTObj n lo up m sd v e)) \<and>
   UniformPrior (Fin 1) (Fin 0) (Fin 2) None = Inr (UniformObj None (Fin 0) (Fin 2) (Fin 1)) \<and>
   GaussianPrior (Fin 0) (Fin 0) NegInf PosInf None =
     Inr (GaussianObj None NegInf PosInf (Fin 0) (Fin 0)) \<and>
   is_ValueError (UniformPrior (Fin 5) (Fin 0) (Fin 2) None) \<and>
   is_ValueError (GaussianPrior (Fin 0) (Fin (- 1)) NegInf PosInf None)"
proof -
  have bounds: "py_gt lo m \<or> py_gt m up \<Longrightarrow> \<not> (py_le lo m \<and> py_le m up)"
    using py_gt_not_le by blast
  have examples:
    "UniformPrior (Fin 1) (Fin 0) (Fin 2) None = Inr (UniformObj None (Fin 0) (Fin 2) (Fin 1))"
    "GaussianPrior (Fin 0) (Fin 0) NegInf PosInf None =
       Inr (GaussianObj None NegInf PosInf (Fin 0) (Fin 0))"
    "is_ValueError (UniformPrior (Fin 5) (Fin 0) (Fin 2) None)"
    "is_ValueError (GaussianPrior (Fin 0) (Fin (- 1)) NegInf PosInf None)"
    by (simp_all add: prior_ctor_defs)
  show ?thesis
    using bounds examples
    by (simp add: uniform_fails gaussian_fails students_fails prior_constructs)
qed

theorem prior_construction_validates_witness:
  "py_gt (Fin 3) (Fin 1) \<and> is_ValueError (UniformPrior (Fin 1) (Fin 3) (Fin 5) None) \<and>
   py_lt (Fin (- 2)) (Fin 0) \<and>
   is_ValueError (LaplacePrior (Fin 1) (Fin (- 2)) (Fin 3) (Fin 5) None) \<and>
   py_lt (Fin (- 4)) (Fin 0) \<and>
   is_ValueError (StudentsTPrior (Fin 1) (Fin (- 2)) (Fin (- 4)) (Fin 3) (Fin 5) None) \<and>
   py_le (Fin 2) (Fin 2) \<and> py_le (Fin 2) (Fin 2) \<and> \<not> py_lt (Fin 0) (Fin 0) \<and>
   LogStudentsTPrior (Fin 2) (Fin 0) (Fin 0) (Fin 7) (Fin 2) (Fin 2) (Some ''iota'') =
     Inr (LogStudentsTObj (Some ''iota'') (Fin 2) (Fin 2) (Fin 2) (Fin 0) (Fin 0) (Fin 7))"
  using prior_construction_validates
          [of "Fin 3" "Fin 1" "Fin 5" None "Fin (- 2)" "Fin (- 4)" "Fin 7"]
        prior_construction_validates
          [of "Fin 2" "Fin 2" "Fin 2" "Some ''iota''" "Fin 0" "Fin 0" "Fin 7"]
  by (simp add: py_gt_def)

subsection \<open>Equality and hash\<close>

lemma py_eq_imp_eq: "py_eq v w \<Longrightarrow> v = w"
  by (cases v; cases w) auto

lemma dict_eq_subset:
  assumes "dict_eq a b"
  shows "set a \<subseteq> set b"
proof
  fix kv assume kv: "kv \<in> set a"
  obtain k v where [simp]: "kv = (k, v)" by (cases kv)
  from assms kv have "case map_of b k of None \<Rightarrow> False | Some w \<Rightarrow> py_eq v w"
    by (auto simp: dict_eq_def list_all_iff)
  then obtain w where "map_of b k = Some w" "py_eq v w"
    by (cases "map_of b k") auto
  then show "kv \<in> set b"
    using py_eq_imp_eq map_of_SomeD by fastforce
qed

lemma dict_eq_set:
  assumes "dict_eq a b" and "distinct (map fst a)"
  shows "set a = set b"
proof (rule card_seteq)
  show "finite (set b)" by simp
  show "set a \<subseteq> set b" by (rule dict_eq_subset [OF assms(1)])
  have "distinct a" using assms(2) by (rule distinct_map [THEN iffD1, THEN conjunct1])
  then have "card (set a) = length a" by (rule distinct_card)
  moreover have "card (set b) \<le> length b" by (rule card_length)
  moreover have "length a = length b" using assms(1) by (simp add: dict_eq_def)
  ultimately show "card (set b) \<le> card (set a)" by simp
qed

lemma distinct_parameters: "distinct (map fst (parameters p))"
  by (cases p) simp_all

text \<open>
  Two priors of different classes with the same name and the same parameter values are
  equal, since the dictionary compared by \<open>__eq__\<close> carries no density entry.
\<close>

lemma gaussian_eq_laplace:
  "prior_eq (GaussianObj None NegInf PosInf (Fin 0) (Fin 1))
            (LaplaceObj None NegInf PosInf (Fin 0) (Fin 1))"
  by (simp add: dict_eq_def prior_eq_def)

text \<open>
  Claim C2, as amended. The hash is structural over the parameter set only: two priors of
  the same kind whose parameter dictionaries are equal have equal hashes even when their
  names differ. Equality is not independent of the name: two such priors are equal
  exactly when their names are equal too.
\<close>

theorem prior_eq_hash_names:
  "density_of p = density_of q \<Longrightarrow> dict_eq (parameters p) (parameters q) \<Longrightarrow>
     (prior_eq p q \<longleftrightarrow> name p = name q) \<and> prior_hash H p = prior_hash H q"
  by (simp add: prior_eq_def prior_hash_def dict_eq_set [OF _ distinct_parameters])

theorem prior_eq_hash_names_witness:
  "density_of (LogGaussianObj (Some ''a'') (Fin 0) (Fin 2) (Fin 1) (Fin 3) (Fin 4))
     = density_of (LogGaussianObj None (Fin 0) (Fin 2) (Fin 1) (Fin 3) (Fin 4)) \<and>
   dict_eq (parameters (LogGaussianObj (Some ''a'') (Fin 0) (Fin 2) (Fin 1) (Fin 3) (Fin 4)))
           (parameters (LogGaussianObj None (Fin 0) (Fin 2) (Fin 1) (Fin 3) (Fin 4))) \<and>
   \<not> prior_eq (LogGaussianObj (Some ''a'') (Fin 0) (Fin 2) (Fin 1) (Fin 3) (Fin 4))
              (LogGaussianObj None (Fin 0) (Fin 2) (Fin 1) (Fin 3) (Fin 4)) \<and>
   prior_hash (\<lambda>s. int (card s))
       (LogGaussianObj (Some ''a'') (Fin 0) (Fin 2) (Fin 1) (Fin 3) (Fin 4))
     = prior_hash (\<lambda>s. int (card s))
       (LogGaussianObj None (Fin 0) (Fin 2) (Fin 1) (Fin 3) (Fin 4))"
  using prior_eq_hash_names
          [of "LogGaussianObj (Some ''a'') (Fin 0) (Fin 2) (Fin 1) (Fin 3) (Fin 4)"
              "LogGaussianObj None (Fin 0) (Fin 2) (Fin 1) (Fin 3) (Fin 4)"
              "\<lambda>s. int (card s)"]
  by (simp add: dict_eq_def)

text \<open>
  The claim as it was stated fails: \<open>UniformPrior(mean=1, lower=0, upper=2, name="a")\<close>
  and \<open>UniformPrior(mean=1, lower=0, upper=2)\<close> are of the same kind and have equal
  parameters, and they are not equal.
\<close>

theorem prior_eq_ignores_name_counterexample:
  "UniformPrior (Fin 1) (Fin 0) (Fin 2) (Some ''a'') =
     Inr (UniformObj (Some ''a'') (Fin 0) (Fin 2) (Fin 1)) \<and>
   UniformPrior (Fin 1) (Fin 0) (Fin 2) None = Inr (UniformObj None (Fin 0) (Fin 2) (Fin 1)) \<and>
   density_of (UniformObj (Some ''a'') (Fin 0) (Fin 2) (Fin 1)) =
     density_of (UniformObj None (Fin 0) (Fin 2) (Fin 1)) \<and>
   dict_eq (parameters (UniformObj (Some ''a'') (Fin 0) (Fin 2) (Fin 1)))
           (parameters (UniformObj None (Fin 0) (Fin 2) (Fin 1))) \<and>
   \<not> prior_eq (UniformObj (Some ''a'') (Fin 0) (Fin 2) (Fin 1))
              (UniformObj None (Fin 0) (Fin 2) (Fin 1))"
  by (simp add: UniformPrior_def validate_bounds_def dict_eq_def prior_eq_def)

text \<open>
  Claim C9. Hash and equality disagree about names: \<open>GaussianPrior(0, 1, name="left")\<close>
  and \<open>GaussianPrior(0, 1, name="right")\<close> are of the same kind, have equal parameter
  sets and different names; their hashes are equal, whatever the hash function on
  frozensets is, and \<open>==\<close> between them is false.
\<close>

theorem prior_hash_eq_inconsistent:
  "\<exists>p q. GaussianPrior (Fin 0) (Fin 1) NegInf PosInf (Some ''left'') = Inr p \<and>
         GaussianPrior (Fin 0) (Fin 1) NegInf PosInf (Some ''right'') = Inr q \<and>
         density_of p = density_of q \<and>
         dict_eq (parameters p) (parameters q) \<and>
         name p \<noteq> name q \<and>
         (\<forall>H. prior_hash H p = prior_hash H q) \<and>
         \<not> prior_eq p q"
  by (simp add: GaussianPrior_def validate_bounds_def validate_standard_deviation_def
      dict_eq_def prior_eq_def prior_hash_def)

section \<open>Properties of the covariate column\<close>

subsection \<open>The conversion of an int\<close>

lemma bit_length_bounds: "0 < n \<Longrightarrow> 2 ^ (bit_length n - 1) \<le> n \<and> n < 2 ^ bit_length n"
proof (induction n rule: bit_length.induct)
  case (1 n)
  show ?case
  proof (cases "n div 2 = 0")
    case True
    with "1.prems" have "n = 1" by (simp add: div_eq_0_iff)
    then show ?thesis by (simp add: bit_length.simps [of "Suc 0"] bit_length.simps [of 0])
  next
    case False
    then have pos: "0 < n div 2" by simp
    from "1.IH" [OF _ pos] "1.prems"
    have ih: "2 ^ (bit_length (n div 2) - 1) \<le> n div 2" "n div 2 < 2 ^ bit_length (n div 2)"
      by simp_all
    have bl: "bit_length n = Suc (bit_length (n div 2))"
      using "1.prems" by (simp add: bit_length.simps [of n])
    have "0 < bit_length (n div 2)"
      using pos by (simp add: bit_length.simps [of "n div 2"])
    then obtain k where k: "bit_length (n div 2) = Suc k"
      by (cases "bit_length (n div 2)") simp_all
    from ih(1) have "2 * 2 ^ k \<le> n" unfolding k by simp
    moreover from ih(2) have "n < 2 * 2 ^ Suc k" unfolding k by simp
    ultimately show ?thesis unfolding bl k by simp
  qed
qed

lemma round_half_even_lower:
  assumes "53 < bit_length n"
  shows "2 ^ (bit_length n - 1) \<le> round_half_even n"
proof -
  define shift where "shift = bit_length n - 53"
  define q where "q = n div 2 ^ shift"
  from assms have n: "0 < n" by (cases "n = 0") (simp_all add: bit_length.simps [of 0])
  have bl: "bit_length n - 1 = 52 + shift" using assms by (simp add: shift_def)
  from bit_length_bounds [OF n] have "2 ^ 52 * 2 ^ shift \<le> n"
    unfolding bl by (simp add: power_add)
  then have "2 ^ 52 \<le> q"
    unfolding q_def by (simp add: less_eq_div_iff_mult_less_eq)
  then have a: "2 ^ 52 * 2 ^ shift \<le> q * 2 ^ shift"
    by (rule mult_le_mono1)
  have b: "q * 2 ^ shift \<le> round_half_even n"
    using assms by (simp add: round_half_even_def Let_def shift_def q_def)
  have c: "(2::nat) ^ (bit_length n - 1) = 2 ^ 52 * 2 ^ shift"
    unfolding bl by (rule power_add)
  show ?thesis unfolding c by (rule order_trans [OF a b])
qed

lemma round_half_even_pos: "0 < n \<Longrightarrow> 0 < round_half_even n"
proof (cases "bit_length n \<le> 53")
  case True
  assume "0 < n"
  with True show ?thesis by (simp add: round_half_even_def)
next
  case False
  then have "2 ^ (bit_length n - 1) \<le> round_half_even n"
    by (intro round_half_even_lower) simp
  moreover have "(0::nat) < 2 ^ (bit_length n - 1)" by simp
  ultimately show ?thesis by linarith
qed

lemma round_half_even_zero: "round_half_even 0 = 0"
  by (simp add: round_half_even_def bit_length.simps [of 0])

text \<open>An int at or beyond \<open>2 ^ 1024\<close> in magnitude has no float conversion.\<close>

lemma float_of_int_overflow:
  assumes "2 ^ 1024 \<le> \<bar>i\<bar>"
  shows "float_of_int i = Inl (OverflowError ''int too large to convert to float'')"
proof -
  define n where "n = nat \<bar>i\<bar>"
  from assms have big: "2 ^ 1024 \<le> n"
    unfolding n_def by (simp add: le_nat_iff)
  then have n: "0 < n"
    by (metis gr0I not_less_zero pos2 zero_less_power leD less_le_trans)
  from bit_length_bounds [OF n] big have lt: "(2::nat) ^ 1024 < 2 ^ bit_length n"
    by linarith
  have "(1::nat) < 2" by simp
  from power_less_imp_less_exp [OF this lt] have bl: "1024 < bit_length n" .
  then have "2 ^ (bit_length n - 1) \<le> round_half_even n"
    by (intro round_half_even_lower) simp
  moreover have "(2::nat) ^ 1024 \<le> 2 ^ (bit_length n - 1)"
    using bl by (intro power_increasing) simp_all
  ultimately have "2 ^ 1024 \<le> round_half_even n" by linarith
  then show ?thesis
    by (simp add: float_of_int_def Let_def n_def)
qed

text \<open>The conversion of an int keeps its sign.\<close>

lemma float_of_int_sign:
  assumes "float_of_int i = Inr x"
  shows "py_gt x (Fin 0) \<longleftrightarrow> 0 < i" and "py_le x (Fin 0) \<longleftrightarrow> i \<le> 0"
proof -
  define m where "m = round_half_even (nat \<bar>i\<bar>)"
  from assms have x: "x = Fin (if i < 0 then - real m else real m)"
    by (auto simp: float_of_int_def Let_def m_def split: if_splits)
  have m0: "i = 0 \<Longrightarrow> m = 0" by (simp add: m_def round_half_even_zero)
  have mpos: "i \<noteq> 0 \<Longrightarrow> 0 < m" unfolding m_def by (intro round_half_even_pos) simp
  show "py_gt x (Fin 0) \<longleftrightarrow> 0 < i"
    using m0 mpos by (cases "i = 0") (auto simp: x py_gt_def)
  show "py_le x (Fin 0) \<longleftrightarrow> i \<le> 0"
    using m0 mpos by (cases "i = 0") (auto simp: x)
qed

subsection \<open>The setter\<close>

lemma not_le_zero_iff: "d \<noteq> NaN \<Longrightarrow> \<not> py_le d (Fin 0) \<longleftrightarrow> py_gt d (Fin 0)"
  unfolding py_gt_def by (cases d) auto

text \<open>
  What the setter does on every argument: it succeeds exactly when the argument is
  \<open>None\<close>, or its float conversion exists and is not \<open>\<le> 0\<close>, and then stores \<open>None\<close> or
  the conversion; whenever it fails the object is left as it was, and a conversion
  \<open>\<le> 0\<close> fails with \<open>ValueError\<close>.
\<close>

lemma set_max_difference_outcome:
  "(snd (set_max_difference self difference) = None \<longleftrightarrow>
      difference = None \<or>
      (\<exists>d x. difference = Some d \<and> py_float d = Inr x \<and> \<not> py_le x (Fin 0)))"
  "difference = None \<Longrightarrow>
     set_max_difference self difference = (self\<lparr>cc_max_difference := None\<rparr>, None)"
  "difference = Some d \<Longrightarrow> py_float d = Inr x \<Longrightarrow> \<not> py_le x (Fin 0) \<Longrightarrow>
     set_max_difference self difference = (self\<lparr>cc_max_difference := Some x\<rparr>, None)"
  "difference = Some d \<Longrightarrow> py_float d = Inr x \<Longrightarrow> py_le x (Fin 0) \<Longrightarrow>
     set_max_difference self difference =
       (self, Some (ValueError ''max difference must be positive''))"
  "snd (set_max_difference self difference) \<noteq> None \<Longrightarrow>
     fst (set_max_difference self difference) = self"
  by (auto simp: set_max_difference_def split: option.splits sum.splits)

text \<open>
  Apart from NaN, a conversion that is not \<open>\<le> 0\<close> is strictly positive: for every
  argument whose conversion is not NaN the setter succeeds exactly when the argument is
  \<open>None\<close> or its conversion is strictly positive.
\<close>

lemma set_max_difference_positive:
  assumes "\<And>d. difference = Some d \<Longrightarrow> py_float d \<noteq> Inr NaN"
  shows "snd (set_max_difference self difference) = None \<longleftrightarrow>
      difference = None \<or>
      (\<exists>d x. difference = Some d \<and> py_float d = Inr x \<and> py_gt x (Fin 0))"
proof -
  have "\<And>d x. difference = Some d \<Longrightarrow> py_float d = Inr x \<Longrightarrow>
      \<not> py_le x (Fin 0) \<longleftrightarrow> py_gt x (Fin 0)"
    using assms not_le_zero_iff by metis
  then show ?thesis
    unfolding set_max_difference_outcome(1) by blast
qed

text \<open>
  The conversion at work: \<open>2 ** 53 + 1 = 9007199254740993\<close> is stored as the double
  \<open>2 ** 53 = 9007199254740992\<close>, \<open>10 ** 400\<close> raises \<open>OverflowError\<close>, and 0 raises
  \<open>ValueError\<close>; the object is unchanged on both failures.
\<close>

lemma bit_length_example: "bit_length 9007199254740993 = 54"
  by (simp add: bit_length.simps)

lemma float_of_int_rounds: "float_of_int 9007199254740993 = Inr (Fin 9007199254740992)"
  by (simp add: float_of_int_def round_half_even_def bit_length_example Let_def)

lemma set_max_difference_rounds:
  "set_max_difference \<lparr>cc_name = Some ''sex'', cc_reference = None,
       cc_max_difference = Some (Fin 2)\<rparr> (Some (PyInt 9007199254740993)) =
     (\<lparr>cc_name = Some ''sex'', cc_reference = None,
       cc_max_difference = Some (Fin 9007199254740992)\<rparr>, None)"
  by (simp add: set_max_difference_def float_of_int_rounds)

lemma set_max_difference_overflows:
  "set_max_difference \<lparr>cc_name = Some ''sex'', cc_reference = None,
       cc_max_difference = Some (Fin 2)\<rparr> (Some (PyInt (10 ^ 400))) =
     (\<lparr>cc_name = Some ''sex'', cc_reference = None, cc_max_difference = Some (Fin 2)\<rparr>,
      Some (OverflowError ''int too large to convert to float''))"
  by (simp add: set_max_difference_def float_of_int_overflow)

lemma set_max_difference_zero:
  "set_max_difference \<lparr>cc_name = Some ''sex'', cc_reference = None,
       cc_max_difference = Some (Fin 2)\<rparr> (Some (PyInt 0)) =
     (\<lparr>cc_name = Some ''sex'', cc_reference = None, cc_max_difference = Some (Fin 2)\<rparr>,
      Some (ValueError ''max difference must be positive''))"
  by (simp add: set_max_difference_def float_of_int_def round_half_even_zero)

text \<open>
  Claim C10. The claim does not hold of the code at NaN. The guard of the setter is
  \<open>diff <= 0\<close>, which is false for NaN, so \<open>max_difference = float("nan")\<close> succeeds
  and NaN is stored, although NaN is neither \<open>None\<close> nor a number whose float conversion
  is strictly positive; the \<open>ValueError\<close> of the guard says that the value must be
  positive.
\<close>

theorem set_max_difference_nan_stored:
  "py_float (PyFloat NaN) = Inr NaN \<and> \<not> py_gt NaN (Fin 0) \<and>
   set_max_difference \<lparr>cc_name = Some ''sex'', cc_reference = None, cc_max_difference = None\<rparr>
     (Some (PyFloat NaN)) =
     (\<lparr>cc_name = Some ''sex'', cc_reference = None, cc_max_difference = Some NaN\<rparr>, None)"
  by (simp add: set_max_difference_def py_gt_def)

section \<open>Properties of the session\<close>

subsection \<open>The completion check\<close>

text \<open>\<open>py_in\<close> is the substring test.\<close>

lemma py_in_iff: "py_in s t \<longleftrightarrow> (\<exists>a b. t = a @ s @ b)"
proof (induction t)
  case Nil
  then show ?case by auto
next
  case (Cons c cs)
  have pre: "take (length s) (c # cs) = s \<longleftrightarrow> (\<exists>b. c # cs = s @ b)"
    by (metis append_eq_conv_conj)
  have "(\<exists>a b. c # cs = a @ s @ b) \<longleftrightarrow> (\<exists>b. c # cs = s @ b) \<or> (\<exists>a b. cs = a @ s @ b)"
  proof
    assume "\<exists>a b. c # cs = a @ s @ b"
    then obtain a b where ab: "c # cs = a @ s @ b" by blast
    show "(\<exists>b. c # cs = s @ b) \<or> (\<exists>a b. cs = a @ s @ b)"
    proof (cases a)
      case Nil
      with ab show ?thesis by auto
    next
      case (Cons x a')
      with ab have "cs = a' @ s @ b" by simp
      then show ?thesis by blast
    qed
  next
    assume "(\<exists>b. c # cs = s @ b) \<or> (\<exists>a b. cs = a @ s @ b)"
    then show "\<exists>a b. c # cs = a @ s @ b"
    proof
      assume "\<exists>b. c # cs = s @ b"
      then obtain b where "c # cs = [] @ s @ b" by auto
      then show ?thesis by blast
    next
      assume "\<exists>a b. cs = a @ s @ b"
      then obtain a b where "c # cs = (c # a) @ s @ b" by auto
      then show ?thesis by blast
    qed
  qed
  with pre Cons show ?case by simp
qed

lemma run_dismod_Cons:
  "run_dismod env self (c # cs) =
     (let args = [''dmdismod'', filename self] @ (c # cs);
          r = run_with_logging env args;
          ran = [Flush, CloseDb, RunProcess args, ReopenDb]
      in then_do (ran_then (check_dismod_command (log_message r) c (stdout r) (stderr r)) ran)
               (\<lambda>u. if return_code r \<noteq> 0
                    then (Inl (AssertionError (''return code is '' @ str_of_int (return_code r))),
                          [])
                    else (Inr (stdout r, stderr r),
                          (case command_io env c of None \<Rightarrow> [] | Some outs \<Rightarrow> [Refresh outs]))))"
  by (simp add: run_dismod_def Let_def)

lemma run_dismod_passes:
  assumes "r = run_with_logging env ([''dmdismod'', filename self] @ c # cs)"
    and "check_dismod_command (log_message r) c (stdout r) (stderr r) = (Inr (), w)"
    and "return_code r = 0"
  shows "run_dismod env self (c # cs) =
      (Inr (stdout r, stderr r),
       [Flush, CloseDb, RunProcess ([''dmdismod'', filename self] @ c # cs), ReopenDb] @ w @
       (case command_io env c of None \<Rightarrow> [] | Some outs \<Rightarrow> [Refresh outs]))"
  using assms by (simp add: run_dismod_Cons Let_def then_do_def ran_then_def)

lemma run_dismod_fatal:
  assumes "r = run_with_logging env ([''dmdismod'', filename self] @ c # cs)"
    and "check_dismod_command (log_message r) c (stdout r) (stderr r) = (Inl e, w)"
  shows "fst (run_dismod env self (c # cs)) = Inl e"
  using assms by (simp add: run_dismod_Cons Let_def then_do_def ran_then_def)

text \<open>
  When the check passes and the return code is not zero, the assertion fails and no
  result is returned.
\<close>

lemma run_dismod_nonzero:
  assumes "r = run_with_logging env ([''dmdismod'', filename self] @ c # cs)"
    and "check_dismod_command (log_message r) c (stdout r) (stderr r) = (Inr (), w)"
    and "return_code r \<noteq> 0"
  shows "fst (run_dismod env self (c # cs)) =
      Inl (AssertionError (''return code is '' @ str_of_int (return_code r)))"
  using assms by (simp add: run_dismod_Cons Let_def then_do_def ran_then_def)

lemma check_dismod_command_cases:
  "lg = [] \<or> \<not> py_in (''end '' @ command) (last lg) \<Longrightarrow>
   py_in ''std:bad_alloc'' out \<or> py_in ''std:bad_alloc'' err \<Longrightarrow>
     check_dismod_command lg command out err =
       (Inl (DismodATException ''Dismod-AT ran out of memory''), [])"
  "lg = [] \<or> \<not> py_in (''end '' @ command) (last lg) \<Longrightarrow>
   \<not> (py_in ''std:bad_alloc'' out \<or> py_in ''std:bad_alloc'' err) \<Longrightarrow>
   py_in ''Maximum Number of Iterations Exceeded'' out \<or>
   py_in ''Maximum Number of Iterations Exceeded'' err \<Longrightarrow>
     check_dismod_command lg command out err =
       (Inr (), [LogWarning ''Dismod-AT exceeded iterations''])"
  "lg = [] \<or> \<not> py_in (''end '' @ command) (last lg) \<Longrightarrow>
   \<not> (py_in ''std:bad_alloc'' out \<or> py_in ''std:bad_alloc'' err) \<Longrightarrow>
   \<not> (py_in ''Maximum Number of Iterations Exceeded'' out \<or>
      py_in ''Maximum Number of Iterations Exceeded'' err) \<Longrightarrow>
     check_dismod_command lg command out err =
       (Inl (DismodATException
          (''Dismod-AT failed to complete '' @ [CHR 0x27] @ command @ [CHR 0x27] @ '' command'')),
        [])"
  "lg \<noteq> [] \<and> py_in (''end '' @ command) (last lg) \<Longrightarrow>
     check_dismod_command lg command out err = (Inr (), [])"
  by (simp_all add: check_dismod_command_def Let_def)

text \<open>
  \<open>_run_dismod\<close> in terms of the outcome of the check: a failure of the check is the
  failure of the call; after a check that passes, the assertion on the return code
  decides.
\<close>

lemma run_dismod_by_check:
  assumes "r = run_with_logging env ([''dmdismod'', filename self] @ c # cs)"
  shows "check_dismod_command (log_message r) c (stdout r) (stderr r) = (Inl e, w) \<Longrightarrow>
      run_dismod env self (c # cs) =
        (Inl e, [Flush, CloseDb, RunProcess ([''dmdismod'', filename self] @ c # cs), ReopenDb]
                @ w)"
    and "check_dismod_command (log_message r) c (stdout r) (stderr r) = (Inr (), w) \<Longrightarrow>
      run_dismod env self (c # cs) =
        (if return_code r = 0
         then (Inr (stdout r, stderr r),
               [Flush, CloseDb, RunProcess ([''dmdismod'', filename self] @ c # cs), ReopenDb]
               @ w @ (case command_io env c of None \<Rightarrow> [] | Some outs \<Rightarrow> [Refresh outs]))
         else (Inl (AssertionError (''return code is '' @ str_of_int (return_code r))),
               [Flush, CloseDb, RunProcess ([''dmdismod'', filename self] @ c # cs), ReopenDb]
               @ w))"
  using assms by (simp_all add: run_dismod_Cons Let_def then_do_def ran_then_def)

text \<open>
  Claim C1, as amended. After the external program has returned, the check looks at the
  log table. If it is empty, or its last message does not contain \<open>end <command>\<close>:
  with the out-of-memory marker in stdout or stderr the call raises the fatal
  \<open>DismodATException\<close>, whatever the return code; otherwise, with the
  maximum-iterations marker in stdout or stderr, the check logs one warning and raises
  nothing, and the command's result, the pair of stdout and stderr, is returned when the
  return code is zero, while a non-zero return code fails the assertion that follows
  the check; otherwise the call raises the fatal \<open>DismodATException\<close> whose message
  names the command, whatever the return code. If the last message does contain
  \<open>end <command>\<close> the check passes without a warning, whatever stdout and stderr
  contain, and the call returns the result when the return code is zero. The first four
  conjuncts state this of \<open>_check_dismod_command\<close>, the last one of \<open>_run_dismod\<close>.
\<close>

theorem dismod_command_classification:
  "(lg = [] \<or> \<not> py_in (''end '' @ command) (last lg) \<longrightarrow>
      (py_in ''std:bad_alloc'' out \<or> py_in ''std:bad_alloc'' err \<longrightarrow>
         check_dismod_command lg command out err =
           (Inl (DismodATException ''Dismod-AT ran out of memory''), [])) \<and>
      (\<not> (py_in ''std:bad_alloc'' out \<or> py_in ''std:bad_alloc'' err) \<and>
       (py_in ''Maximum Number of Iterations Exceeded'' out \<or>
        py_in ''Maximum Number of Iterations Exceeded'' err) \<longrightarrow>
         check_dismod_command lg command out err =
           (Inr (), [LogWarning ''Dismod-AT exceeded iterations''])) \<and>
      (\<not> (py_in ''std:bad_alloc'' out \<or> py_in ''std:bad_alloc'' err) \<and>
       \<not> (py_in ''Maximum Number of Iterations Exceeded'' out \<or>
          py_in ''Maximum Number of Iterations Exceeded'' err) \<longrightarrow>
         check_dismod_command lg command out err =
           (Inl (DismodATException
              (''Dismod-AT failed to complete '' @ [CHR 0x27] @ command @ [CHR 0x27]
               @ '' command'')), []))) \<and>
   (lg \<noteq> [] \<and> py_in (''end '' @ command) (last lg) \<longrightarrow>
      check_dismod_command lg command out err = (Inr (), [])) \<and>
   (r = run_with_logging env ([''dmdismod'', filename self] @ c # cs) \<longrightarrow>
      (log_message r = [] \<or> \<not> py_in (''end '' @ c) (last (log_message r)) \<longrightarrow>
         (py_in ''std:bad_alloc'' (stdout r) \<or> py_in ''std:bad_alloc'' (stderr r) \<longrightarrow>
            run_dismod env self (c # cs) =
              (Inl (DismodATException ''Dismod-AT ran out of memory''),
               [Flush, CloseDb, RunProcess ([''dmdismod'', filename self] @ c # cs),
                ReopenDb])) \<and>
         (\<not> (py_in ''std:bad_alloc'' (stdout r) \<or> py_in ''std:bad_alloc'' (stderr r)) \<and>
          (py_in ''Maximum Number of Iterations Exceeded'' (stdout r) \<or>
           py_in ''Maximum Number of Iterations Exceeded'' (stderr r)) \<longrightarrow>
            run_dismod env self (c # cs) =
              (if return_code r = 0
               then (Inr (stdout r, stderr r),
                     [Flush, CloseDb, RunProcess ([''dmdismod'', filename self] @ c # cs),
                      ReopenDb, LogWarning ''Dismod-AT exceeded iterations''] @
                     (case command_io env c of None \<Rightarrow> [] | Some outs \<Rightarrow> [Refresh outs]))
               else (Inl (AssertionError (''return code is '' @ str_of_int (return_code r))),
                     [Flush, CloseDb, RunProcess ([''dmdismod'', filename self] @ c # cs),
                      ReopenDb, LogWarning ''Dismod-AT exceeded iterations'']))) \<and>
         (\<not> (py_in ''std:bad_alloc'' (stdout r) \<or> py_in ''std:bad_alloc'' (stderr r)) \<and>
          \<not> (py_in ''Maximum Number of Iterations Exceeded'' (stdout r) \<or>
             py_in ''Maximum Number of Iterations Exceeded'' (stderr r)) \<longrightarrow>
            run_dismod env self (c # cs) =
              (Inl (DismodATException
                 (''Dismod-AT failed to complete '' @ [CHR 0x27] @ c @ [CHR 0x27]
                  @ '' command'')),
               [Flush, CloseDb, RunProcess ([''dmdismod'', filename self] @ c # cs),
                ReopenDb]))) \<and>
      (log_message r \<noteq> [] \<and> py_in (''end '' @ c) (last (log_message r)) \<longrightarrow>
         run_dismod env self (c # cs) =
           (if return_code r = 0
            then (Inr (stdout r, stderr r),
                  [Flush, CloseDb, RunProcess ([''dmdismod'', filename self] @ c # cs),
                   ReopenDb] @
                  (case command_io env c of None \<Rightarrow> [] | Some outs \<Rightarrow> [Refresh outs]))
            else (Inl (AssertionError (''return code is '' @ str_of_int (return_code r))),
                  [Flush, CloseDb, RunProcess ([''dmdismod'', filename self] @ c # cs),
                   ReopenDb]))))"
proof (intro conjI impI)
  assume r: "r = run_with_logging env ([''dmdismod'', filename self] @ c # cs)"
    and l: "log_message r = [] \<or> \<not> py_in (''end '' @ c) (last (log_message r))"
    and o: "py_in ''std:bad_alloc'' (stdout r) \<or> py_in ''std:bad_alloc'' (stderr r)"
  from run_dismod_by_check(1) [OF r check_dismod_command_cases(1) [OF l o]]
  show "run_dismod env self (c # cs) =
      (Inl (DismodATException ''Dismod-AT ran out of memory''),
       [Flush, CloseDb, RunProcess ([''dmdismod'', filename self] @ c # cs), ReopenDb])"
    by simp
next
  assume r: "r = run_with_logging env ([''dmdismod'', filename self] @ c # cs)"
    and l: "log_message r = [] \<or> \<not> py_in (''end '' @ c) (last (log_message r))"
    and a: "\<not> (py_in ''std:bad_alloc'' (stdout r) \<or> py_in ''std:bad_alloc'' (stderr r)) \<and>
      (py_in ''Maximum Number of Iterations Exceeded'' (stdout r) \<or>
       py_in ''Maximum Number of Iterations Exceeded'' (stderr r))"
  from a have o: "\<not> (py_in ''std:bad_alloc'' (stdout r) \<or> py_in ''std:bad_alloc'' (stderr r))"
    by (rule conjunct1)
  from a have m: "py_in ''Maximum Number of Iterations Exceeded'' (stdout r) \<or>
       py_in ''Maximum Number of Iterations Exceeded'' (stderr r)"
    by (rule conjunct2)
  from run_dismod_by_check(2) [OF r check_dismod_command_cases(2) [OF l o m]]
  show "run_dismod env self (c # cs) =
      (if return_code r = 0
       then (Inr (stdout r, stderr r),
             [Flush, CloseDb, RunProcess ([''dmdismod'', filename self] @ c # cs),
              ReopenDb, LogWarning ''Dismod-AT exceeded iterations''] @
             (case command_io env c of None \<Rightarrow> [] | Some outs \<Rightarrow> [Refresh outs]))
       else (Inl (AssertionError (''return code is '' @ str_of_int (return_code r))),
             [Flush, CloseDb, RunProcess ([''dmdismod'', filename self] @ c # cs),
              ReopenDb, LogWarning ''Dismod-AT exceeded iterations'']))"
    by simp
next
  assume r: "r = run_with_logging env ([''dmdismod'', filename self] @ c # cs)"
    and l: "log_message r = [] \<or> \<not> py_in (''end '' @ c) (last (log_message r))"
    and a: "\<not> (py_in ''std:bad_alloc'' (stdout r) \<or> py_in ''std:bad_alloc'' (stderr r)) \<and>
      \<not> (py_in ''Maximum Number of Iterations Exceeded'' (stdout r) \<or>
         py_in ''Maximum Number of Iterations Exceeded'' (stderr r))"
  from a have o: "\<not> (py_in ''std:bad_alloc'' (stdout r) \<or> py_in ''std:bad_alloc'' (stderr r))"
    by (rule conjunct1)
  from a have m: "\<not> (py_in ''Maximum Number of Iterations Exceeded'' (stdout r) \<or>
       py_in ''Maximum Number of Iterations Exceeded'' (stderr r))"
    by (rule conjunct2)
  from run_dismod_by_check(1) [OF r check_dismod_command_cases(3) [OF l o m]]
  show "run_dismod env self (c # cs) =
      (Inl (DismodATException
         (''Dismod-AT failed to complete '' @ [CHR 0x27] @ c @ [CHR 0x27] @ '' command'')),
       [Flush, CloseDb, RunProcess ([''dmdismod'', filename self] @ c # cs), ReopenDb])"
    by simp
next
  assume r: "r = run_with_logging env ([''dmdismod'', filename self] @ c # cs)"
    and l: "log_message r \<noteq> [] \<and> py_in (''end '' @ c) (last (log_message r))"
  from run_dismod_by_check(2) [OF r check_dismod_command_cases(4) [OF l]]
  show "run_dismod env self (c # cs) =
      (if return_code r = 0
       then (Inr (stdout r, stderr r),
             [Flush, CloseDb, RunProcess ([''dmdismod'', filename self] @ c # cs), ReopenDb] @
             (case command_io env c of None \<Rightarrow> [] | Some outs \<Rightarrow> [Refresh outs]))
       else (Inl (AssertionError (''return code is '' @ str_of_int (return_code r))),
             [Flush, CloseDb, RunProcess ([''dmdismod'', filename self] @ c # cs), ReopenDb]))"
    by simp
qed (simp_all add: check_dismod_command_cases)

theorem dismod_command_classification_witness:
  "check_dismod_command [] ''fit'' ''std:bad_alloc'' [] =
     (Inl (DismodATException ''Dismod-AT ran out of memory''), []) \<and>
   \<not> py_in ''end fit'' ''begin fit'' \<and>
   check_dismod_command [''begin fit''] ''fit'' []
       ''Maximum Number of Iterations Exceeded'' =
     (Inr (), [LogWarning ''Dismod-AT exceeded iterations'']) \<and>
   py_in ''end fit'' ''12 end fit'' \<and>
   check_dismod_command [''begin fit'', ''12 end fit''] ''fit'' ''std:bad_alloc'' [] =
     (Inr (), []) \<and>
   run_dismod
     \<lparr>run_with_logging = (\<lambda>args. \<lparr>return_code = 0, stdout = [],
          stderr = ''Maximum Number of Iterations Exceeded'', log_message = [''begin fit'']\<rparr>),
      command_io = (\<lambda>c. if c = ''fit'' then Some [''fit_var''] else None),
      check_alignment = (\<lambda>(m :: unit) (v :: unit). []), var_truthy = (\<lambda>v. True),
      random_effect = (\<lambda>m. False), scale_set_by_user = (\<lambda>m. False)\<rparr>
     \<lparr>filename = ''fit.db'', options = []\<rparr> [''fit'', ''fixed''] =
     (Inr ([], ''Maximum Number of Iterations Exceeded''),
      [Flush, CloseDb, RunProcess [''dmdismod'', ''fit.db'', ''fit'', ''fixed''], ReopenDb,
       LogWarning ''Dismod-AT exceeded iterations'', Refresh [''fit_var'']])"
  using dismod_command_classification
          [of "[]" "''fit''" "''std:bad_alloc''" "[]"
              "\<lparr>return_code = 0, stdout = [],
                stderr = ''Maximum Number of Iterations Exceeded'',
                log_message = [''begin fit'']\<rparr>"
              "\<lparr>run_with_logging = (\<lambda>args. \<lparr>return_code = 0, stdout = [],
                  stderr = ''Maximum Number of Iterations Exceeded'',
                  log_message = [''begin fit'']\<rparr>),
                command_io = (\<lambda>c. if c = ''fit'' then Some [''fit_var''] else None),
                check_alignment = (\<lambda>(m :: unit) (v :: unit). []), var_truthy = (\<lambda>v. True),
                random_effect = (\<lambda>m. False), scale_set_by_user = (\<lambda>m. False)\<rparr>"
              "\<lparr>filename = ''fit.db'', options = []\<rparr>" "''fit''" "[''fixed'']"]
        dismod_command_classification
          [of "[''begin fit'']" "''fit''" "[]" "''Maximum Number of Iterations Exceeded''"]
        dismod_command_classification
          [of "[''begin fit'', ''12 end fit'']" "''fit''" "''std:bad_alloc''" "[]"]
  by (simp add: check_dismod_command_def)

text \<open>
  The claim as it was stated fails where it says that in the maximum-iterations case the
  command's result is still returned on every invocation: with the return code 1, the
  marker in stderr and no \<open>end fit\<close> in the log, the warning is logged and the call
  raises \<open>AssertionError\<close>.
\<close>

theorem result_returned_counterexample:
  "\<not> py_in ''end fit'' ''begin fit'' \<and>
   \<not> py_in ''std:bad_alloc'' ''Maximum Number of Iterations Exceeded'' \<and>
   py_in ''Maximum Number of Iterations Exceeded'' ''Maximum Number of Iterations Exceeded'' \<and>
   run_dismod
     \<lparr>run_with_logging = (\<lambda>args. \<lparr>return_code = 1, stdout = [],
          stderr = ''Maximum Number of Iterations Exceeded'', log_message = [''begin fit'']\<rparr>),
      command_io = (\<lambda>c. if c = ''fit'' then Some [''fit_var''] else None),
      check_alignment = (\<lambda>(m :: unit) (v :: unit). []), var_truthy = (\<lambda>v. True),
      random_effect = (\<lambda>m. False), scale_set_by_user = (\<lambda>m. False)\<rparr>
     \<lparr>filename = ''fit.db'', options = []\<rparr> [''fit'', ''fixed''] =
     (Inl (AssertionError ''return code is 1''),
      [Flush, CloseDb, RunProcess [''dmdismod'', ''fit.db'', ''fit'', ''fixed''], ReopenDb,
       LogWarning ''Dismod-AT exceeded iterations''])"
  by (simp add: run_dismod_def check_dismod_command_def then_do_def ran_then_def Let_def
      str_of_int_def str_of_nat.simps)

subsection \<open>Columns of a frame after each operation\<close>

lemma has_column_iff: "has_column d k \<longleftrightarrow> get_column d k \<noteq> None"
  by (simp add: has_column_def get_column_def map_of_eq_None_iff)

lemma map_of_replace:
  "map_of (map (\<lambda>(k, old). if k = c then (k, vs) else (k, old)) xs) k' =
     (if k' = c then (if map_of xs c = None then None else Some vs) else map_of xs k')"
  by (induction xs) auto

lemma map_of_append_new:
  "map_of xs c = None \<Longrightarrow> map_of (xs @ [(c, vs)]) k' = (if k' = c then Some vs else map_of xs k')"
  by (induction xs) auto

lemma get_column_assign:
  "get_column (assign d c vs) k = (if k = c then Some vs else get_column d k)"
proof (cases "has_column d c")
  case True
  then have "map_of (columns d) c \<noteq> None"
    by (simp add: has_column_iff get_column_def)
  with True show ?thesis
    by (auto simp add: get_column_def assign_def map_of_replace)
next
  case False
  then have "map_of (columns d) c = None"
    by (simp add: has_column_iff get_column_def)
  with False show ?thesis
    by (simp add: get_column_def assign_def map_of_append_new del: map_of_append)
qed

lemma index_assign: "index (assign d c vs) = index d"
  by (simp add: assign_def)

lemma get_column_assign_scalar:
  "get_column (assign_scalar d c v) k =
     (if k = c then Some (replicate (length (index d)) v) else get_column d k)"
  by (simp add: assign_scalar_def get_column_assign)

lemma index_assign_scalar: "index (assign_scalar d c v) = index d"
  by (simp add: assign_scalar_def index_assign)

lemma map_of_filter_keys:
  "map_of (filter (\<lambda>(k, vs). k \<notin> S) xs) k' = (if k' \<in> S then None else map_of xs k')"
  by (induction xs) auto

lemma get_column_drop:
  "get_column (drop_columns d cs) k = (if k \<in> set cs then None else get_column d k)"
  by (simp add: get_column_def drop_columns_def map_of_filter_keys)

lemma index_drop: "index (drop_columns d cs) = index d"
  by (simp add: drop_columns_def)

lemma drop_columns_Nil: "drop_columns d [] = d"
  by (simp add: drop_columns_def)

lemma get_column_point_step:
  "get_column (point_step d (a, l)) k =
     (if k = a @ ''_'' @ l \<and> get_column d (a @ ''_'' @ l) = None then get_column d a
      else get_column d k)"
  by (auto simp: point_step_def has_column_iff get_column_assign)

lemma index_point_step: "index (point_step d p) = index d"
  by (cases p) (auto simp: point_step_def index_assign split: option.splits)

lemma point_step_absent: "\<not> has_column d a \<Longrightarrow> point_step d (a, l) = d"
  by (simp add: point_step_def)

subsection \<open>Point columns to intervals\<close>

lemma point_age_time_Some:
  "point_age_time_to_interval (Some d) =
     Some (drop_columns (foldl point_step d
        [(''age'', ''lower''), (''age'', ''upper''), (''time'', ''lower''), (''time'', ''upper'')])
       (filter (has_column (foldl point_step d
        [(''age'', ''lower''), (''age'', ''upper''), (''time'', ''lower''), (''time'', ''upper'')]))
          [''age'', ''time'']))"
  by (simp add: point_age_time_to_interval_def Let_def)

lemma get_column_interval_point:
  assumes "point_age_time_to_interval (Some d) = Some d1"
  shows "get_column d1 ''age'' = None" and "get_column d1 ''time'' = None"
  using assms unfolding point_age_time_Some
  by (auto simp: get_column_drop has_column_iff)

lemma get_column_interval_other:
  assumes "point_age_time_to_interval (Some d) = Some d1"
    and "k \<noteq> ''age''" "k \<noteq> ''time''"
    and "k \<noteq> ''age_lower''" "k \<noteq> ''age_upper''" "k \<noteq> ''time_lower''" "k \<noteq> ''time_upper''"
  shows "get_column d1 k = get_column d k"
  using assms unfolding point_age_time_Some
  by (auto simp: get_column_drop get_column_point_step)

lemma index_interval:
  assumes "point_age_time_to_interval (Some d) = Some d1"
  shows "index d1 = index d"
  using assms unfolding point_age_time_Some
  by (auto simp: index_drop index_point_step)

lemma get_column_interval_bounds:
  assumes "point_age_time_to_interval (Some d) = Some d1"
  shows "get_column d1 ''age_lower'' =
           (if has_column d ''age_lower'' then get_column d ''age_lower'' else get_column d ''age'')"
    and "get_column d1 ''age_upper'' =
           (if has_column d ''age_upper'' then get_column d ''age_upper'' else get_column d ''age'')"
    and "get_column d1 ''time_lower'' =
           (if has_column d ''time_lower'' then get_column d ''time_lower''
            else get_column d ''time'')"
    and "get_column d1 ''time_upper'' =
           (if has_column d ''time_upper'' then get_column d ''time_upper''
            else get_column d ''time'')"
  using assms unfolding point_age_time_Some
  by (auto simp: get_column_drop get_column_point_step has_column_iff)

subsection \<open>Names and defaults\<close>

lemma amend_unfold:
  "amend_data_input data =
     (case point_age_time_to_interval data of
        None \<Rightarrow> Inl (AttributeError ''NoneType object has no attribute columns'')
      | Some d \<Rightarrow> (case name_step d of Inl e \<Rightarrow> Inl e | Inr d1 \<Rightarrow> Inr (fill_step d1)))"
  by (simp add: amend_data_input_def name_step_def fill_step_def Let_def split: option.splits)

lemma no_null_names: "filter isnull (map (\<lambda>l. CStr (str_of_label l)) ls) = []"
  by (induction ls) auto

lemma name_step_Inr:
  assumes "name_step d = Inr d1"
  shows "index d1 = index d"
    and "k \<noteq> ''name'' \<Longrightarrow> get_column d1 k = get_column d k"
    and "get_column d1 ''name'' =
           (if has_column d ''name'' then get_column d ''name''
            else Some (map (\<lambda>l. CStr (str_of_label l)) (index d)))"
    and "\<exists>names. get_column d1 ''name'' = Some names \<and> filter isnull names = []"
  using assms
  by (auto simp: name_step_def index_assign get_column_assign has_column_iff no_null_names
      split: if_splits option.splits)

lemma name_step_Inl:
  assumes "get_column d ''name'' = Some names" and "filter isnull names \<noteq> []"
  shows "name_step d = Inl (RuntimeError ''There are some data values that lack data names. '')"
  using assms by (simp add: name_step_def has_column_iff)

lemma name_step_ok:
  assumes "\<And>names. get_column d ''name'' = Some names \<Longrightarrow> filter isnull names = []"
  shows "\<exists>d1. name_step d = Inr d1"
  using assms by (auto simp: name_step_def has_column_iff split: option.splits)

lemma fill_step_index: "index (fill_step d) = index d"
  by (simp add: fill_step_def add_unspecified_def index_assign_scalar)

lemma fill_step_other:
  "k \<noteq> ''hold_out'' \<Longrightarrow> k \<noteq> ''nu'' \<Longrightarrow> k \<noteq> ''eta'' \<Longrightarrow>
     get_column (fill_step d) k = get_column d k"
  by (simp add: fill_step_def add_unspecified_def get_column_assign_scalar)

lemma fill_step_hold_out:
  "get_column (fill_step d) ''hold_out'' =
     (if has_column d ''hold_out'' then get_column d ''hold_out''
      else Some (replicate (length (index d)) (CInt 0)))"
  by (simp add: fill_step_def add_unspecified_def get_column_assign_scalar)

lemma fill_step_nu:
  "get_column (fill_step d) ''nu'' =
     (if has_column d ''nu'' then get_column d ''nu''
      else Some (replicate (length (index d)) (CFloat NaN)))"
  by (simp add: fill_step_def add_unspecified_def get_column_assign_scalar has_column_iff
      index_assign_scalar)

lemma fill_step_eta:
  "get_column (fill_step d) ''eta'' =
     (if has_column d ''eta'' then get_column d ''eta''
      else Some (replicate (length (index d)) (CFloat NaN)))"
  by (simp add: fill_step_def add_unspecified_def get_column_assign_scalar has_column_iff
      index_assign_scalar)

lemma fill_step_id:
  "has_column d ''hold_out'' \<Longrightarrow> has_column d ''nu'' \<Longrightarrow> has_column d ''eta'' \<Longrightarrow>
     fill_step d = d"
  by (simp add: fill_step_def add_unspecified_def)

lemma amend_Some_Inr:
  assumes "amend_data_input (Some d) = Inr d'"
  obtains d0 d1 where "point_age_time_to_interval (Some d) = Some d0"
    and "name_step d0 = Inr d1" and "d' = fill_step d1"
  using assms unfolding amend_unfold
  by (auto split: option.splits sum.splits)

lemma amend_None:
  "amend_data_input None = Inl (AttributeError ''NoneType object has no attribute columns'')"
  by (simp add: amend_data_input_def point_age_time_to_interval_def)

lemma amend_normalized:
  assumes "amend_data_input data = Inr d'"
  shows "normalized d'"
proof (cases data)
  case None
  with assms show ?thesis by (simp add: amend_None)
next
  case (Some d)
  with assms obtain d0 d1 where p: "point_age_time_to_interval (Some d) = Some d0"
    and n: "name_step d0 = Inr d1" and f: "d' = fill_step d1"
    by (auto elim: amend_Some_Inr)
  have "get_column d1 ''age'' = None" "get_column d1 ''time'' = None"
    using get_column_interval_point [OF p] name_step_Inr(2) [OF n] by simp_all
  then have "\<not> has_column d' ''age''" "\<not> has_column d' ''time''"
    unfolding f by (simp_all add: has_column_iff fill_step_other)
  moreover have "\<exists>names. get_column d' ''name'' = Some names \<and> filter isnull names = []"
    unfolding f using name_step_Inr(4) [OF n] by (simp add: fill_step_other)
  moreover have "has_column d' ''hold_out''" "has_column d' ''nu''" "has_column d' ''eta''"
    unfolding f
    by (auto simp: has_column_iff [of "fill_step d1"] fill_step_hold_out fill_step_nu
        fill_step_eta dest: has_column_iff [of d1, THEN iffD1])
  ultimately show ?thesis by (simp add: normalized_def)
qed

lemma normalized_fixed:
  assumes "normalized d"
  shows "amend_data_input (Some d) = Inr d"
proof -
  from assms have na: "\<not> has_column d ''age''" and nt: "\<not> has_column d ''time''"
    and h: "has_column d ''hold_out''" "has_column d ''nu''" "has_column d ''eta''"
    by (simp_all add: normalized_def)
  from assms obtain names
    where nm: "get_column d ''name'' = Some names" "filter isnull names = []"
    by (auto simp: normalized_def)
  have pts: "foldl point_step d
     [(''age'', ''lower''), (''age'', ''upper''), (''time'', ''lower''), (''time'', ''upper'')] = d"
    by (simp add: point_step_absent na nt)
  have p: "point_age_time_to_interval (Some d) = Some d"
    unfolding point_age_time_Some pts by (simp add: na nt drop_columns_Nil)
  have n: "name_step d = Inr d"
    using nm by (simp add: name_step_def has_column_iff)
  show ?thesis
    unfolding amend_unfold p by (simp add: n fill_step_id h)
qed

text \<open>
  A table with row labels 5 and 7, a point column for the age and an interval column
  for the time, and what the normalization makes of it.
\<close>

lemma amend_example:
  "amend_data_input
     (Some \<lparr>index = [LInt 5, LInt 7],
            columns = [(''age'', [CFloat (Fin 10), CFloat (Fin 20)]),
                       (''time_lower'', [CInt 2000, CInt 2000])]\<rparr>) =
   Inr \<lparr>index = [LInt 5, LInt 7],
        columns = [(''time_lower'', [CInt 2000, CInt 2000]),
                   (''age_lower'', [CFloat (Fin 10), CFloat (Fin 20)]),
                   (''age_upper'', [CFloat (Fin 10), CFloat (Fin 20)]),
                   (''name'', [CStr ''5'', CStr ''7'']),
                   (''hold_out'', [CInt 0, CInt 0]),
                   (''nu'', [CFloat NaN, CFloat NaN]),
                   (''eta'', [CFloat NaN, CFloat NaN])]\<rparr>"
  by (simp add: amend_data_input_def point_age_time_to_interval_def point_step_def
      has_column_def get_column_def assign_def assign_scalar_def drop_columns_def
      add_unspecified_def Let_def str_of_int_def str_of_nat.simps)

lemma amend_null_name:
  "amend_data_input (Some \<lparr>index = [LInt 0], columns = [(''name'', [CNone])]\<rparr>) =
     Inl (RuntimeError ''There are some data values that lack data names. '')"
  by (simp add: amend_data_input_def point_age_time_to_interval_def point_step_def
      has_column_def drop_columns_def get_column_def Let_def)

text \<open>
  Claim C4, as amended. When the normalization of a table succeeds, the result has the
  same row labels and: each of \<open>age_lower\<close>, \<open>age_upper\<close>, \<open>time_lower\<close>, \<open>time_upper\<close>
  is the input's column of that name when it has one and otherwise a copy of the point
  column \<open>age\<close> (\<open>time\<close>), if that exists; the point columns are gone; a missing \<open>name\<close>
  column holds the row labels of the index as text; a missing \<open>hold_out\<close> column holds 0
  in every row; a missing \<open>nu\<close> or \<open>eta\<close> column holds NaN in every row; columns that are
  present are kept. A \<open>name\<close> column with a null in it makes the normalization raise
  \<open>RuntimeError\<close>, and without such a null it succeeds.
\<close>

theorem amend_data_input_normalizes:
  "(amend_data_input (Some d) = Inr d' \<longrightarrow>
      index d' = index d \<and>
      \<not> has_column d' ''age'' \<and> \<not> has_column d' ''time'' \<and>
      get_column d' ''age_lower'' =
        (if has_column d ''age_lower'' then get_column d ''age_lower'' else get_column d ''age'') \<and>
      get_column d' ''age_upper'' =
        (if has_column d ''age_upper'' then get_column d ''age_upper'' else get_column d ''age'') \<and>
      get_column d' ''time_lower'' =
        (if has_column d ''time_lower'' then get_column d ''time_lower''
         else get_column d ''time'') \<and>
      get_column d' ''time_upper'' =
        (if has_column d ''time_upper'' then get_column d ''time_upper''
         else get_column d ''time'') \<and>
      get_column d' ''name'' =
        (if has_column d ''name'' then get_column d ''name''
         else Some (map (\<lambda>l. CStr (str_of_label l)) (index d))) \<and>
      get_column d' ''hold_out'' =
        (if has_column d ''hold_out'' then get_column d ''hold_out''
         else Some (replicate (length (index d)) (CInt 0))) \<and>
      get_column d' ''nu'' =
        (if has_column d ''nu'' then get_column d ''nu''
         else Some (replicate (length (index d)) (CFloat NaN))) \<and>
      get_column d' ''eta'' =
        (if has_column d ''eta'' then get_column d ''eta''
         else Some (replicate (length (index d)) (CFloat NaN)))) \<and>
   (get_column d ''name'' = Some names \<and> (\<exists>c\<in>set names. isnull c) \<longrightarrow>
      amend_data_input (Some d) =
        Inl (RuntimeError ''There are some data values that lack data names. '')) \<and>
   ((\<forall>ns. get_column d ''name'' = Some ns \<longrightarrow> (\<forall>c\<in>set ns. \<not> isnull c)) \<longrightarrow>
      (\<exists>d''. amend_data_input (Some d) = Inr d''))"
proof (intro conjI impI)
  obtain d0 where p: "point_age_time_to_interval (Some d) = Some d0"
    by (simp add: point_age_time_Some)
  have keep: "get_column d0 ''name'' = get_column d ''name''"
    "get_column d0 ''hold_out'' = get_column d ''hold_out''"
    "get_column d0 ''nu'' = get_column d ''nu''"
    "get_column d0 ''eta'' = get_column d ''eta''"
    by (simp_all add: get_column_interval_other [OF p])
  {
    assume "get_column d ''name'' = Some names \<and> (\<exists>c\<in>set names. isnull c)"
    then have "get_column d0 ''name'' = Some names" "filter isnull names \<noteq> []"
      by (auto simp: keep filter_empty_conv)
    then show "amend_data_input (Some d) =
        Inl (RuntimeError ''There are some data values that lack data names. '')"
      unfolding amend_unfold p by (simp add: name_step_Inl)
  }
  {
    assume "\<forall>ns. get_column d ''name'' = Some ns \<longrightarrow> (\<forall>c\<in>set ns. \<not> isnull c)"
    then have "\<And>ns. get_column d0 ''name'' = Some ns \<Longrightarrow> filter isnull ns = []"
      by (auto simp: keep filter_empty_conv)
    from name_step_ok [OF this] obtain d1 where "name_step d0 = Inr d1" by blast
    then show "\<exists>d''. amend_data_input (Some d) = Inr d''"
      unfolding amend_unfold p by simp
  }
  assume ok: "amend_data_input (Some d) = Inr d'"
  then obtain d1 where n: "name_step d0 = Inr d1" and f: "d' = fill_step d1"
    unfolding amend_unfold p by (auto split: sum.splits)
  note ns = name_step_Inr [OF n]
  have has: "has_column d1 ''hold_out'' = has_column d ''hold_out''"
    "has_column d1 ''nu'' = has_column d ''nu''"
    "has_column d1 ''eta'' = has_column d ''eta''"
    "has_column d0 ''name'' = has_column d ''name''"
    by (simp_all add: has_column_iff ns(2) keep)
  show "index d' = index d"
    unfolding f by (simp add: fill_step_index ns(1) index_interval [OF p])
  from amend_normalized [OF ok] show "\<not> has_column d' ''age''" "\<not> has_column d' ''time''"
    by (simp_all add: normalized_def)
  show "get_column d' ''age_lower'' =
        (if has_column d ''age_lower'' then get_column d ''age_lower'' else get_column d ''age'')"
    unfolding f by (simp add: fill_step_other ns(2) get_column_interval_bounds(1) [OF p])
  show "get_column d' ''age_upper'' =
        (if has_column d ''age_upper'' then get_column d ''age_upper'' else get_column d ''age'')"
    unfolding f by (simp add: fill_step_other ns(2) get_column_interval_bounds(2) [OF p])
  show "get_column d' ''time_lower'' =
        (if has_column d ''time_lower'' then get_column d ''time_lower''
         else get_column d ''time'')"
    unfolding f by (simp add: fill_step_other ns(2) get_column_interval_bounds(3) [OF p])
  show "get_column d' ''time_upper'' =
        (if has_column d ''time_upper'' then get_column d ''time_upper''
         else get_column d ''time'')"
    unfolding f by (simp add: fill_step_other ns(2) get_column_interval_bounds(4) [OF p])
  show "get_column d' ''name'' =
        (if has_column d ''name'' then get_column d ''name''
         else Some (map (\<lambda>l. CStr (str_of_label l)) (index d)))"
    unfolding f by (simp add: fill_step_other ns(3) has(4) keep index_interval [OF p])
  show "get_column d' ''hold_out'' =
        (if has_column d ''hold_out'' then get_column d ''hold_out''
         else Some (replicate (length (index d)) (CInt 0)))"
    unfolding f by (simp add: fill_step_hold_out has ns(1,2) keep index_interval [OF p])
  show "get_column d' ''nu'' =
        (if has_column d ''nu'' then get_column d ''nu''
         else Some (replicate (length (index d)) (CFloat NaN)))"
    unfolding f by (simp add: fill_step_nu has ns(1,2) keep index_interval [OF p])
  show "get_column d' ''eta'' =
        (if has_column d ''eta'' then get_column d ''eta''
         else Some (replicate (length (index d)) (CFloat NaN)))"
    unfolding f by (simp add: fill_step_eta has ns(1,2) keep index_interval [OF p])
qed

theorem amend_data_input_normalizes_witness:
  "amend_data_input
     (Some \<lparr>index = [LInt 5, LInt 7],
            columns = [(''age'', [CFloat (Fin 10), CFloat (Fin 20)]),
                       (''time_lower'', [CInt 2000, CInt 2000])]\<rparr>) =
   Inr \<lparr>index = [LInt 5, LInt 7],
        columns = [(''time_lower'', [CInt 2000, CInt 2000]),
                   (''age_lower'', [CFloat (Fin 10), CFloat (Fin 20)]),
                   (''age_upper'', [CFloat (Fin 10), CFloat (Fin 20)]),
                   (''name'', [CStr ''5'', CStr ''7'']),
                   (''hold_out'', [CInt 0, CInt 0]),
                   (''nu'', [CFloat NaN, CFloat NaN]),
                   (''eta'', [CFloat NaN, CFloat NaN])]\<rparr> \<and>
   get_column \<lparr>index = [LInt 5, LInt 7],
        columns = [(''time_lower'', [CInt 2000, CInt 2000]),
                   (''age_lower'', [CFloat (Fin 10), CFloat (Fin 20)]),
                   (''age_upper'', [CFloat (Fin 10), CFloat (Fin 20)]),
                   (''name'', [CStr ''5'', CStr ''7'']),
                   (''hold_out'', [CInt 0, CInt 0]),
                   (''nu'', [CFloat NaN, CFloat NaN]),
                   (''eta'', [CFloat NaN, CFloat NaN])]\<rparr> ''name'' =
     Some (map (\<lambda>l. CStr (str_of_label l)) [LInt 5, LInt 7]) \<and>
   get_column \<lparr>index = [LInt 0], columns = [(''name'', [CNone])]\<rparr> ''name'' = Some [CNone] \<and>
   isnull CNone \<and>
   amend_data_input (Some \<lparr>index = [LInt 0], columns = [(''name'', [CNone])]\<rparr>) =
     Inl (RuntimeError ''There are some data values that lack data names. '')"
  using amend_data_input_normalizes
          [of "\<lparr>index = [LInt 5, LInt 7],
                columns = [(''age'', [CFloat (Fin 10), CFloat (Fin 20)]),
                           (''time_lower'', [CInt 2000, CInt 2000])]\<rparr>"
              "\<lparr>index = [LInt 5, LInt 7],
                columns = [(''time_lower'', [CInt 2000, CInt 2000]),
                   (''age_lower'', [CFloat (Fin 10), CFloat (Fin 20)]),
                   (''age_upper'', [CFloat (Fin 10), CFloat (Fin 20)]),
                   (''name'', [CStr ''5'', CStr ''7'']),
                   (''hold_out'', [CInt 0, CInt 0]),
                   (''nu'', [CFloat NaN, CFloat NaN]),
                   (''eta'', [CFloat NaN, CFloat NaN])]\<rparr>" "[]"]
        amend_data_input_normalizes
          [of "\<lparr>index = [LInt 0], columns = [(''name'', [CNone])]\<rparr>"
              "\<lparr>index = [LInt 0], columns = [(''name'', [CNone])]\<rparr>" "[CNone]"]
        amend_example amend_null_name
  by (simp add: get_column_def has_column_def str_of_int_def str_of_nat.simps)

text \<open>
  The claim as it was stated fails where it says that a missing \<open>name\<close> column is filled
  from the row position: the two rows of this table are at positions 0 and 1, their
  labels are 5 and 7, and the names they get are \<open>5\<close> and \<open>7\<close>.
\<close>

theorem name_from_position_counterexample:
  "\<not> has_column \<lparr>index = [LInt 5, LInt 7],
         columns = [(''meas_value'', [CFloat (Fin 1), CFloat (Fin 2)])]\<rparr> ''name'' \<and>
   amend_data_input
     (Some \<lparr>index = [LInt 5, LInt 7],
            columns = [(''meas_value'', [CFloat (Fin 1), CFloat (Fin 2)])]\<rparr>) =
   Inr \<lparr>index = [LInt 5, LInt 7],
        columns = [(''meas_value'', [CFloat (Fin 1), CFloat (Fin 2)]),
                   (''name'', [CStr ''5'', CStr ''7'']),
                   (''hold_out'', [CInt 0, CInt 0]),
                   (''nu'', [CFloat NaN, CFloat NaN]),
                   (''eta'', [CFloat NaN, CFloat NaN])]\<rparr> \<and>
   [CStr ''5'', CStr ''7''] \<noteq> [CStr (str_of_int 0), CStr (str_of_int 1)]"
  by (simp add: amend_data_input_def point_age_time_to_interval_def point_step_def
      has_column_def get_column_def assign_def assign_scalar_def drop_columns_def
      add_unspecified_def Let_def str_of_int_def str_of_nat.simps)

text \<open>
  Claim C5. The normalization is idempotent: whenever it succeeds on its input, applying
  it to its output succeeds and returns that output.
\<close>

theorem amend_data_input_idempotent:
  "amend_data_input data = Inr d' \<Longrightarrow> amend_data_input (Some d') = Inr d'"
  by (rule normalized_fixed [OF amend_normalized])

theorem amend_data_input_idempotent_witness:
  "amend_data_input
     (Some \<lparr>index = [LInt 5, LInt 7],
            columns = [(''age'', [CFloat (Fin 10), CFloat (Fin 20)]),
                       (''time_lower'', [CInt 2000, CInt 2000])]\<rparr>) =
   Inr \<lparr>index = [LInt 5, LInt 7],
        columns = [(''time_lower'', [CInt 2000, CInt 2000]),
                   (''age_lower'', [CFloat (Fin 10), CFloat (Fin 20)]),
                   (''age_upper'', [CFloat (Fin 10), CFloat (Fin 20)]),
                   (''name'', [CStr ''5'', CStr ''7'']),
                   (''hold_out'', [CInt 0, CInt 0]),
                   (''nu'', [CFloat NaN, CFloat NaN]),
                   (''eta'', [CFloat NaN, CFloat NaN])]\<rparr> \<and>
   amend_data_input
     (Some \<lparr>index = [LInt 5, LInt 7],
        columns = [(''time_lower'', [CInt 2000, CInt 2000]),
                   (''age_lower'', [CFloat (Fin 10), CFloat (Fin 20)]),
                   (''age_upper'', [CFloat (Fin 10), CFloat (Fin 20)]),
                   (''name'', [CStr ''5'', CStr ''7'']),
                   (''hold_out'', [CInt 0, CInt 0]),
                   (''nu'', [CFloat NaN, CFloat NaN]),
                   (''eta'', [CFloat NaN, CFloat NaN])]\<rparr>) =
   Inr \<lparr>index = [LInt 5, LInt 7],
        columns = [(''time_lower'', [CInt 2000, CInt 2000]),
                   (''age_lower'', [CFloat (Fin 10), CFloat (Fin 20)]),
                   (''age_upper'', [CFloat (Fin 10), CFloat (Fin 20)]),
                   (''name'', [CStr ''5'', CStr ''7'']),
                   (''hold_out'', [CInt 0, CInt 0]),
                   (''nu'', [CFloat NaN, CFloat NaN]),
                   (''eta'', [CFloat NaN, CFloat NaN])]\<rparr>"
  using amend_data_input_idempotent [OF amend_example] amend_example
  by simp

subsection \<open>The alignment guard of fit and simulate\<close>

lemma misalignment_of_Some:
  "var_truthy env g \<Longrightarrow> check_alignment env model g \<noteq> [] \<Longrightarrow>
     misalignment_of env model (Some g) = Some (check_alignment env model g)"
  by (simp add: misalignment_of_def Let_def)

lemma fit_level_impl_misaligned:
  "var_truthy env g \<Longrightarrow> check_alignment env model g \<noteq> [] \<Longrightarrow>
     fit_level_impl env self fit_level model data (Some g) =
       (Inl (RuntimeError (''Model and initial guess are misaligned: ''
               @ check_alignment env model g @ ''.'')), [])"
  by (simp add: fit_level_impl_def misalignment_of_Some)

lemma simulate_misaligned:
  "var_truthy env g \<Longrightarrow> check_alignment env model g \<noteq> [] \<Longrightarrow>
     simulate env self model data (Some g) simulate_count =
       (case amend_data_input data of
          Inl e \<Rightarrow> (Inl e, [])
        | Inr data' \<Rightarrow>
            (Inl (RuntimeError (''Model and fit var are misaligned: ''
                    @ check_alignment env model g @ ''.'')), []))"
  by (simp add: simulate_def misalignment_of_Some split: sum.splits)

text \<open>
  For an initial guess that Python takes as true and whose \<open>check_alignment\<close> against
  the model reports a misalignment, the code does what claim C6 says: \<open>fit_fixed\<close>,
  \<open>fit_random\<close> and \<open>fit\<close> raise the \<open>RuntimeError\<close> whose message carries that report,
  whatever the data are (so before any normalization), having made no store write and
  run no process; \<open>fit\<close> has logged its one info record. With such a \<open>fit_var\<close>,
  \<open>simulate\<close> fails before any store write or process run, and after a normalization
  that succeeds the failure is the \<open>RuntimeError\<close> whose message carries the report.
\<close>

lemma truthy_misaligned_guess_fails_first:
  "var_truthy env g \<and> check_alignment env model g \<noteq> [] \<longrightarrow>
     fit_fixed env self model data (Some g) =
       (Inl (RuntimeError (''Model and initial guess are misaligned: ''
               @ check_alignment env model g @ ''.'')), []) \<and>
     fit_random env self model data (Some g) =
       (Inl (RuntimeError (''Model and initial guess are misaligned: ''
               @ check_alignment env model g @ ''.'')), []) \<and>
     fst (fit env self model data (Some g)) =
       Inl (RuntimeError (''Model and initial guess are misaligned: ''
               @ check_alignment env model g @ ''.'')) \<and>
     filter is_io (snd (fit env self model data (Some g))) = [] \<and>
     (\<exists>e. simulate env self model data (Some g) simulate_count = (Inl e, [])) \<and>
     (amend_data_input data = Inr data' \<longrightarrow>
        simulate env self model data (Some g) simulate_count =
          (Inl (RuntimeError (''Model and fit var are misaligned: ''
                  @ check_alignment env model g @ ''.'')), []))"
  by (auto simp add: fit_def fit_fixed_def fit_random_def fit_level_impl_misaligned
      simulate_misaligned ran_then_def split: sum.splits)





text \<open>
  \<open>simulate\<close> normalizes the data before its guard runs: a null in the \<open>name\<close> column
  ends the call with the error about data names, whether \<open>fit_var\<close> aligns or not.
\<close>

lemma simulate_normalizes_first:
  "simulate env self model
     (Some \<lparr>index = [LInt 0], columns = [(''name'', [CNone])]\<rparr>) fit_var simulate_count
   = (Inl (RuntimeError ''There are some data values that lack data names. ''), [])"
  by (simp add: simulate_def amend_null_name)

section \<open>Properties of the age-time grid\<close>

lemma keys_product:
  "map (\<lambda>r. (age r, time r))
     (concat (map (\<lambda>a. map (\<lambda>t. \<lparr>age = a, time = t, vals = u\<rparr>) ts) as)) = List.product as ts"
  by (induction as) (auto simp: comp_def)

lemma AgeTimeGrid_Seq:
  "AgeTimeGrid (Seq as) (Seq ts) cols =
     Inr \<lparr>ages = as, times = ts,
          col_names = (case cols of Scalar c \<Rightarrow> [c] | Seq cs \<Rightarrow> cs),
          rows = concat (map (\<lambda>a. map (\<lambda>t. \<lparr>age = a, time = t,
                   vals = map (\<lambda>c. (c, None))
                            (case cols of Scalar c \<Rightarrow> [c] | Seq cs \<Rightarrow> cs)\<rparr>) ts) as),
          mulstd = map (\<lambda>k. \<lparr>kind = k,
                   mvals = map (\<lambda>c. (c, None))
                             (case cols of Scalar c \<Rightarrow> [c] | Seq cs \<Rightarrow> cs)\<rparr>)
                     [''value'', ''dage'', ''dtime'']\<rparr>"
  by (simp add: AgeTimeGrid_def Let_def)

lemma grid_keys:
  assumes "AgeTimeGrid (Seq as) (Seq ts) cols = Inr g"
  shows "map (\<lambda>r. (age r, time r)) (rows g) = List.product as ts"
    and "length (mulstd g) = 3"
  using assms unfolding AgeTimeGrid_Seq by (auto simp: keys_product)

text \<open>
  Claim C7. For non-empty sequences of distinct ages and distinct times and any columns
  (a sequence of names or a single name), the construction succeeds; the primary store
  has \<open>|ages| \<times> |times|\<close> rows, whose (age, time) keys are pairwise different and are
  exactly the pairs of an age and a time; the side table has three rows. With a scalar
  in place of the ages or of the times the construction fails with a type error.
\<close>

theorem age_time_grid_shape:
  "(as \<noteq> [] \<and> ts \<noteq> [] \<and> distinct as \<and> distinct ts \<longrightarrow>
      (\<exists>g :: 'v age_time_grid. AgeTimeGrid (Seq as) (Seq ts) cols = Inr g \<and>
         length (rows g) = length as * length ts \<and>
         distinct (map (\<lambda>r. (age r, time r)) (rows g)) \<and>
         set (map (\<lambda>r. (age r, time r)) (rows g)) = set as \<times> set ts \<and>
         length (mulstd g) = 3)) \<and>
   (\<exists>msg. (AgeTimeGrid (Scalar a) (Scalar t) cols :: error + 'v age_time_grid) =
      Inl (TypeError msg)) \<and>
   (\<exists>msg. (AgeTimeGrid (Scalar a) (Seq ts) cols :: error + 'v age_time_grid) =
      Inl (TypeError msg)) \<and>
   (\<exists>msg. (AgeTimeGrid (Seq as) (Scalar t) cols :: error + 'v age_time_grid) =
      Inl (TypeError msg))"
proof -
  obtain g :: "'v age_time_grid" where g: "AgeTimeGrid (Seq as) (Seq ts) cols = Inr g"
    unfolding AgeTimeGrid_Seq by blast
  note k = grid_keys [OF g]
  have len: "length (rows g) = length as * length ts"
    using arg_cong [OF k(1), of length] by simp
  have dist: "distinct as \<and> distinct ts \<longrightarrow> distinct (map (\<lambda>r. (age r, time r)) (rows g))"
    unfolding k(1) by (simp add: distinct_product)
  have st: "set (map (\<lambda>r. (age r, time r)) (rows g)) = set as \<times> set ts"
    unfolding k(1) by simp
  have "as \<noteq> [] \<and> ts \<noteq> [] \<and> distinct as \<and> distinct ts \<longrightarrow>
      (\<exists>g :: 'v age_time_grid. AgeTimeGrid (Seq as) (Seq ts) cols = Inr g \<and>
         length (rows g) = length as * length ts \<and>
         distinct (map (\<lambda>r. (age r, time r)) (rows g)) \<and>
         set (map (\<lambda>r. (age r, time r)) (rows g)) = set as \<times> set ts \<and>
         length (mulstd g) = 3)"
    using g len dist st k(2) by blast
  moreover have
    "\<exists>msg. (AgeTimeGrid (Scalar a) (Scalar t) cols :: error + 'v age_time_grid) =
       Inl (TypeError msg)"
    "\<exists>msg. (AgeTimeGrid (Scalar a) (Seq ts) cols :: error + 'v age_time_grid) =
       Inl (TypeError msg)"
    "\<exists>msg. (AgeTimeGrid (Seq as) (Scalar t) cols :: error + 'v age_time_grid) =
       Inl (TypeError msg)"
    by (simp_all add: AgeTimeGrid_def Let_def)
  ultimately show ?thesis by blast
qed

theorem age_time_grid_shape_witness:
  "[0, 1, 10] \<noteq> ([] :: real list) \<and> [2000, 2010] \<noteq> ([] :: real list) \<and>
   distinct [0, 1, 10 :: real] \<and> distinct [2000, 2010 :: real] \<and>
   (\<exists>g :: real age_time_grid.
      AgeTimeGrid (Seq [0, 1, 10]) (Seq [2000, 2010]) (Seq [''var_id'']) = Inr g \<and>
      length (rows g) = 6 \<and> length (mulstd g) = 3) \<and>
   (\<exists>msg. (AgeTimeGrid (Scalar 40) (Scalar 2010) (Seq [''mean'']) :: error + real age_time_grid)
      = Inl (TypeError msg))"
  using age_time_grid_shape
          [where ?'v = real, of "[0, 1, 10]" "[2000, 2010]" "Seq [''var_id'']" 40 2010]
        age_time_grid_shape
          [where ?'v = real, of "[0, 1, 10]" "[2000, 2010]" "Seq [''mean'']" 40 2010]
  by auto

subsection \<open>Range assignment\<close>

lemma set_range_no_match:
  "filter (matches sa st) (rows g) = [] \<Longrightarrow>
     set_range g sa st v = Inl (RangeError ''no rows match the selection'')"
  by (simp add: set_range_def)

lemma set_range_Inr:
  assumes "set_range g sa st v = Inr g'"
  shows "filter (matches sa st) (rows g) \<noteq> []"
    and "g' = g\<lparr>rows := map (\<lambda>r. if matches sa st r then write_row (col_names g) v r else r)
                          (rows g)\<rparr>"
  using assms by (auto simp: set_range_def split: if_splits assigned.splits)

lemma write_row_key: "age (write_row cols v r) = age r" "time (write_row cols v r) = time r"
  by (cases v; simp add: write_row_def)+

lemma set_range_succeeds:
  assumes "filter (matches sa st) (rows g) \<noteq> []"
    and "\<And>xs. v = Many xs \<Longrightarrow> length xs = length (col_names g)"
  shows "\<exists>g'. set_range g sa st v = Inr g'"
  using assms by (cases v) (auto simp: set_range_def)

lemma fresh_grid_no_match:
  assumes "AgeTimeGrid (Seq as) (Seq ts) cols = Inr g"
    and "(\<forall>a\<in>set as. \<not> in_slice sa a) \<or> (\<forall>t\<in>set ts. \<not> in_slice st t)"
  shows "filter (matches sa st) (rows g) = []"
proof -
  have "set (map (\<lambda>r. (age r, time r)) (rows g)) = set as \<times> set ts"
    unfolding grid_keys(1) [OF assms(1)] by simp
  then have "\<forall>r\<in>set (rows g). age r \<in> set as \<and> time r \<in> set ts"
    by force
  with assms(2) show ?thesis
    by (auto simp: filter_empty_conv matches_def)
qed

text \<open>
  Claim C8. A range assignment whose closed intervals match no row of the grid (for a
  freshly constructed grid: no age breakpoint lies in the age interval, or no time
  breakpoint lies in the time interval) fails with a range error. When at least one row
  matches and the value fits the columns, the assignment succeeds. Whenever it succeeds,
  some row matched, the grid has the same rows in the same order with the same keys,
  every matched row holds the assigned value, every other row is unchanged, and the
  breakpoints, the column names and the side table are unchanged.
\<close>

theorem set_range_matched_rows:
  "(filter (matches sa st) (rows g) = [] \<longrightarrow>
      set_range g sa st v = Inl (RangeError ''no rows match the selection'')) \<and>
   (AgeTimeGrid (Seq as) (Seq ts) cols = Inr g \<and>
    ((\<forall>a\<in>set as. \<not> in_slice sa a) \<or> (\<forall>t\<in>set ts. \<not> in_slice st t)) \<longrightarrow>
      set_range g sa st v = Inl (RangeError ''no rows match the selection'')) \<and>
   (filter (matches sa st) (rows g) \<noteq> [] \<and>
    (\<forall>xs. v = Many xs \<longrightarrow> length xs = length (col_names g)) \<longrightarrow>
      (\<exists>g''. set_range g sa st v = Inr g'')) \<and>
   (set_range g sa st v = Inr g' \<longrightarrow>
      filter (matches sa st) (rows g) \<noteq> [] \<and>
      length (rows g') = length (rows g) \<and>
      (\<forall>i<length (rows g).
         age (rows g' ! i) = age (rows g ! i) \<and> time (rows g' ! i) = time (rows g ! i) \<and>
         (matches sa st (rows g ! i) \<longrightarrow>
            rows g' ! i = write_row (col_names g) v (rows g ! i)) \<and>
         (\<not> matches sa st (rows g ! i) \<longrightarrow> rows g' ! i = rows g ! i)) \<and>
      ages g' = ages g \<and> times g' = times g \<and> col_names g' = col_names g \<and>
      mulstd g' = mulstd g)"
proof (intro conjI impI)
  assume "filter (matches sa st) (rows g) = []"
  then show "set_range g sa st v = Inl (RangeError ''no rows match the selection'')"
    by (rule set_range_no_match)
next
  assume "AgeTimeGrid (Seq as) (Seq ts) cols = Inr g \<and>
    ((\<forall>a\<in>set as. \<not> in_slice sa a) \<or> (\<forall>t\<in>set ts. \<not> in_slice st t))"
  then have "filter (matches sa st) (rows g) = []"
    using fresh_grid_no_match by blast
  then show "set_range g sa st v = Inl (RangeError ''no rows match the selection'')"
    by (rule set_range_no_match)
next
  assume "filter (matches sa st) (rows g) \<noteq> [] \<and>
    (\<forall>xs. v = Many xs \<longrightarrow> length xs = length (col_names g))"
  then show "\<exists>g''. set_range g sa st v = Inr g''"
    using set_range_succeeds by blast
next
  assume ok: "set_range g sa st v = Inr g'"
  note r = set_range_Inr [OF ok]
  show "filter (matches sa st) (rows g) \<noteq> []" by (rule r(1))
  show "length (rows g') = length (rows g)" unfolding r(2) by simp
  show "\<forall>i<length (rows g).
         age (rows g' ! i) = age (rows g ! i) \<and> time (rows g' ! i) = time (rows g ! i) \<and>
         (matches sa st (rows g ! i) \<longrightarrow>
            rows g' ! i = write_row (col_names g) v (rows g ! i)) \<and>
         (\<not> matches sa st (rows g ! i) \<longrightarrow> rows g' ! i = rows g ! i)"
    unfolding r(2) by (simp add: write_row_key)
  show "ages g' = ages g" "times g' = times g" "col_names g' = col_names g"
    "mulstd g' = mulstd g"
    unfolding r(2) by simp_all
qed

lemma example_grid_constructed:
  "AgeTimeGrid (Seq [0, 10]) (Seq [2000, 2010]) (Seq [''var_id'']) = Inr example_grid"
  by (simp add: AgeTimeGrid_def example_grid_def Let_def)

lemma example_grid_assigned:
  "set_range example_grid (None, None) (Some 2005, Some 2015) (Many [321]) =
     Inr (example_grid\<lparr>rows :=
       [\<lparr>age = 0, time = 2000, vals = [(''var_id'', None)]\<rparr>,
        \<lparr>age = 0, time = 2010, vals = [(''var_id'', Some 321)]\<rparr>,
        \<lparr>age = 10, time = 2000, vals = [(''var_id'', None)]\<rparr>,
        \<lparr>age = 10, time = 2010, vals = [(''var_id'', Some 321)]\<rparr>]\<rparr>)"
  by (simp add: set_range_def example_grid_def matches_def in_slice_def write_row_def)

theorem set_range_matched_rows_witness:
  "AgeTimeGrid (Seq [0, 10]) (Seq [2000, 2010]) (Seq [''var_id'']) = Inr example_grid \<and>
   \<not> in_slice (Some 2015, Some 2020) 2000 \<and> \<not> in_slice (Some 2015, Some 2020) 2010 \<and>
   set_range example_grid (None, None) (Some 2015, Some 2020) (Many [9]) =
     Inl (RangeError ''no rows match the selection'') \<and>
   set_range example_grid (None, None) (Some 2005, Some 2015) (Many [321]) =
     Inr (example_grid\<lparr>rows :=
       [\<lparr>age = 0, time = 2000, vals = [(''var_id'', None)]\<rparr>,
        \<lparr>age = 0, time = 2010, vals = [(''var_id'', Some 321)]\<rparr>,
        \<lparr>age = 10, time = 2000, vals = [(''var_id'', None)]\<rparr>,
        \<lparr>age = 10, time = 2010, vals = [(''var_id'', Some 321)]\<rparr>]\<rparr>) \<and>
   \<not> matches (None, None) (Some 2005, Some 2015) (rows example_grid ! 0) \<and>
   rows (example_grid\<lparr>rows :=
       [\<lparr>age = 0, time = 2000, vals = [(''var_id'', None)]\<rparr>,
        \<lparr>age = 0, time = 2010, vals = [(''var_id'', Some 321)]\<rparr>,
        \<lparr>age = 10, time = 2000, vals = [(''var_id'', None)]\<rparr>,
        \<lparr>age = 10, time = 2010, vals = [(''var_id'', Some 321)]\<rparr>]\<rparr>) ! 0 =
     rows example_grid ! 0"
  using set_range_matched_rows
          [of "(None, None)" "(Some 2015, Some 2020)" example_grid "Many [9]"
              "[0, 10]" "[2000, 2010]" "Seq [''var_id'']" example_grid]
        set_range_matched_rows
          [of "(None, None)" "(Some 2005, Some 2015)" example_grid "Many [321]"
              "[0, 10]" "[2000, 2010]" "Seq [''var_id'']"
              "example_grid\<lparr>rows :=
       [\<lparr>age = 0, time = 2000, vals = [(''var_id'', None)]\<rparr>,
        \<lparr>age = 0, time = 2010, vals = [(''var_id'', Some 321)]\<rparr>,
        \<lparr>age = 10, time = 2000, vals = [(''var_id'', None)]\<rparr>,
        \<lparr>age = 10, time = 2010, vals = [(''var_id'', Some 321)]\<rparr>]\<rparr>"]
        example_grid_constructed example_grid_assigned
  by (simp add: in_slice_def matches_def example_grid_def)

end
